theory Spec2Isabelle
  imports Main
begin

section \<open>Go library functions used by the SQL Server driver\<close>

text \<open>
  \<^verbatim>\<open>strings.Split(s, sep)\<close> for a one-byte separator: the pieces of \<open>s\<close> between the
  occurrences of \<open>sep\<close>. The result is never empty; a string without the separator gives
  the one-element list \<open>[s]\<close>.
\<close>

fun Split :: "string \<Rightarrow> char \<Rightarrow> string list" where
  "Split [] sep = [[]]"
| "Split (c # cs) sep =
     (if c = sep then [] # Split cs sep
      else (case Split cs sep of
              [] \<Rightarrow> [[c]]
            | p # ps \<Rightarrow> (c # p) # ps))"

text \<open>\<^verbatim>\<open>strings.Join(elems, sep)\<close>.\<close>

fun Join :: "string list \<Rightarrow> string \<Rightarrow> string" where
  "Join [] sep = []"
| "Join [x] sep = x"
| "Join (x # y # ys) sep = x @ sep @ Join (y # ys) sep"

text \<open>
  \<^verbatim>\<open>strings.Contains(s, "$")\<close>: for a one-byte pattern, the byte occurs in \<open>s\<close>.
\<close>

definition Contains :: "string \<Rightarrow> char \<Rightarrow> bool" where
  "Contains s c = (c \<in> set s)"

text \<open>
  The verb \<^verbatim>\<open>%d\<close> of \<^verbatim>\<open>fmt.Sprintf\<close>: decimal digits, with a minus sign for a
  negative number. (\<^verbatim>\<open>%s\<close> of a string is the string itself and is written with \<open>@\<close>.)
\<close>

function decimal :: "nat \<Rightarrow> string" where
  "decimal n =
     (if n < 10 then [''0123456789'' ! n]
      else decimal (n div 10) @ [''0123456789'' ! (n mod 10)])"
  by pat_completeness auto
termination
  by (relation "measure (\<lambda>n. n)") auto

declare decimal.simps [simp del]

definition fmt_d :: "int \<Rightarrow> string" where
  "fmt_d i = (if i < 0 then ''-'' @ decimal (nat (- i)) else decimal (nat i))"

section \<open>Pending changes\<close>

text \<open>
  Modelled from the spec: the types of package \<^verbatim>\<open>models\<close> (\<^verbatim>\<open>CellValueType\<close>,
  \<^verbatim>\<open>DmlType\<close>, \<^verbatim>\<open>CellValue\<close>, \<^verbatim>\<open>PrimaryKeyInfo\<close>, \<^verbatim>\<open>DbDmlChange\<close>,
  \<^verbatim>\<open>Query\<close>) are declared in another package of the repository. The driver names the constants
  \<^verbatim>\<open>models.Default\<close>, \<^verbatim>\<open>models.Null\<close>, \<^verbatim>\<open>models.Empty\<close>, \<^verbatim>\<open>models.String\<close>
  (the spec's kind \<open>PlainValue\<close>) and \<^verbatim>\<open>models.DmlInsertType\<close>,
  \<^verbatim>\<open>models.DmlUpdateType\<close>, \<^verbatim>\<open>models.DmlDeleteType\<close>, and the fields
  \<^verbatim>\<open>Column\<close>, \<^verbatim>\<open>Value\<close>, \<^verbatim>\<open>Type\<close>, \<^verbatim>\<open>Name\<close>, \<^verbatim>\<open>Table\<close>, \<^verbatim>\<open>Values\<close>,
  \<^verbatim>\<open>PrimaryKeyInfo\<close>, \<^verbatim>\<open>Query\<close>, \<^verbatim>\<open>Args\<close>; the spec gives the kinds as the four
  and three listed.
\<close>

datatype CellValueType = Empty | Null | Default | String

datatype DmlType = DmlUpdateType | DmlDeleteType | DmlInsertType

record CellValue =
  cell_Type :: CellValueType
  cell_Column :: string
  cell_Value :: string

record PrimaryKeyInfo =
  pk_Name :: string
  pk_Value :: string

record DbDmlChange =
  change_Table :: string
  change_Type :: DmlType
  change_Values :: "CellValue list"
  change_PrimaryKeyInfo :: "PrimaryKeyInfo list"

text \<open>
  An element of \<^verbatim>\<open>Args []interface{}\<close>: the driver stores strings there, and
  \<^verbatim>\<open>make([]interface{}, n)\<close> starts with \<open>n\<close> nil interfaces.
\<close>

datatype arg = NilArg | StringArg string

record Query =
  query_Query :: string
  query_Args :: "arg list"

text \<open>A Go run-time panic: \<^verbatim>\<open>index out of range [i] with length n\<close>.\<close>

datatype panic = IndexOutOfRange nat nat

subsection \<open>The loops of \<^verbatim>\<open>ExecutePendingChanges\<close>\<close>

text \<open>
  The first loop over \<^verbatim>\<open>change.Values\<close>: \<^verbatim>\<open>valuesPlaceholder\<close>, with the running
  \<^verbatim>\<open>placeholderIndex\<close>. (The index is a Go \<^verbatim>\<open>int\<close> counting slice elements, so
  it cannot overflow; it is a natural number here.)
\<close>

fun valuesPlaceholder_loop :: "CellValue list \<Rightarrow> nat \<Rightarrow> string list" where
  "valuesPlaceholder_loop [] placeholderIndex = []"
| "valuesPlaceholder_loop (cell # cells) placeholderIndex =
     (case cell_Type cell of
        Default \<Rightarrow> ''DEFAULT'' # valuesPlaceholder_loop cells placeholderIndex
      | Null \<Rightarrow> ''NULL'' # valuesPlaceholder_loop cells placeholderIndex
      | _ \<Rightarrow> (''$'' @ decimal placeholderIndex)
               # valuesPlaceholder_loop cells (placeholderIndex + 1))"

definition columnNames_loop :: "CellValue list \<Rightarrow> string list" where
  "columnNames_loop cells = map cell_Column cells"

text \<open>The second loop over \<^verbatim>\<open>change.Values\<close>: the bound \<^verbatim>\<open>values\<close>.\<close>

fun values_loop :: "CellValue list \<Rightarrow> arg list" where
  "values_loop [] = []"
| "values_loop (cell # cells) =
     (case cell_Type cell of
        Empty \<Rightarrow> StringArg [] # values_loop cells
      | String \<Rightarrow> StringArg (cell_Value cell) # values_loop cells
      | _ \<Rightarrow> values_loop cells)"

definition formatTableName :: "string \<Rightarrow> string \<Rightarrow> string" where
  "formatTableName database table = ''['' @ database @ ''].['' @ table @ '']''"

text \<open>The SET loop of an update, at index \<open>i\<close> with the statement so far.\<close>

fun set_loop :: "nat \<Rightarrow> string list \<Rightarrow> string list \<Rightarrow> string \<Rightarrow> string" where
  "set_loop i [] valuesPlaceholder queryStr = queryStr"
| "set_loop i (column # columnNames) valuesPlaceholder queryStr =
     set_loop (i + 1) columnNames valuesPlaceholder
       (if i = 0 then queryStr @ '' SET ['' @ column @ ''] = '' @ valuesPlaceholder ! i
        else queryStr @ '', ['' @ column @ ''] = '' @ valuesPlaceholder ! i)"

text \<open>The loop that counts the placeholders containing \<^verbatim>\<open>$\<close>.\<close>

fun wherePlaceholder_loop :: "string list \<Rightarrow> nat \<Rightarrow> nat" where
  "wherePlaceholder_loop [] wherePlaceholder = wherePlaceholder"
| "wherePlaceholder_loop (placeholder # rest) wherePlaceholder =
     wherePlaceholder_loop rest
       (if Contains placeholder (CHR ''$'') then wherePlaceholder + 1 else wherePlaceholder)"

text \<open>The WHERE loop of an update: statement, arguments and ordinal so far.\<close>

fun update_where_loop ::
  "nat \<Rightarrow> PrimaryKeyInfo list \<Rightarrow> nat \<Rightarrow> string \<Rightarrow> arg list \<Rightarrow> string \<times> arg list" where
  "update_where_loop i [] wherePlaceholder queryStr args = (queryStr, args)"
| "update_where_loop i (pki # rest) wherePlaceholder queryStr args =
     (let wherePlaceholder = wherePlaceholder + 1
      in update_where_loop (i + 1) rest wherePlaceholder
           (if i = 0 then queryStr @ '' WHERE ['' @ pk_Name pki @ ''] = $'' @ decimal wherePlaceholder
            else queryStr @ '' AND ['' @ pk_Name pki @ ''] = $'' @ decimal wherePlaceholder)
           (args @ [StringArg (pk_Value pki)]))"

text \<open>
  The WHERE loop of a delete: \<^verbatim>\<open>args[i] = pki.Value\<close> writes into the slice made with
  the length of \<^verbatim>\<open>change.PrimaryKeyInfo\<close>, so the index is in range.
\<close>

fun delete_where_loop ::
  "nat \<Rightarrow> PrimaryKeyInfo list \<Rightarrow> string \<Rightarrow> arg list \<Rightarrow> string \<times> arg list" where
  "delete_where_loop i [] queryStr args = (queryStr, args)"
| "delete_where_loop i (pki # rest) queryStr args =
     delete_where_loop (i + 1) rest
       (if i = 0 then queryStr @ '' WHERE ['' @ pk_Name pki @ ''] = $'' @ decimal (i + 1)
        else queryStr @ '' AND ['' @ pk_Name pki @ ''] = $'' @ decimal (i + 1))
       (args[i := StringArg (pk_Value pki)])"

text \<open>
  The body of the loop over \<^verbatim>\<open>changes\<close>: the statement one change appends to
  \<^verbatim>\<open>queries\<close>. \<^verbatim>\<open>splitTableString[1]\<close> is read without a check of the length, so a
  table without a dot panics.
\<close>

definition change_query :: "DbDmlChange \<Rightarrow> panic + Query" where
  "change_query change =
     (let columnNames = columnNames_loop (change_Values change);
          valuesPlaceholder = valuesPlaceholder_loop (change_Values change) 1;
          values = values_loop (change_Values change);
          splitTableString = Split (change_Table change) (CHR ''.'')
      in if length splitTableString < 2
         then Inl (IndexOutOfRange 1 (length splitTableString))
         else
           let tableSchema = splitTableString ! 0;
               tableName = splitTableString ! 1;
               formattedTableName = formatTableName tableSchema tableName
           in (case change_Type change of
                 DmlInsertType \<Rightarrow>
                   Inr \<lparr>query_Query =
                          ''INSERT INTO '' @ formattedTableName
                          @ '' ('' @ Join columnNames '', '' @ '') VALUES (''
                          @ Join valuesPlaceholder '', '' @ '')'',
                        query_Args = values\<rparr>
               | DmlUpdateType \<Rightarrow>
                   let queryStr = set_loop 0 columnNames valuesPlaceholder
                                    (''UPDATE '' @ formattedTableName);
                       wherePlaceholder = wherePlaceholder_loop valuesPlaceholder 0;
                       (queryStr, args) =
                          update_where_loop 0 (change_PrimaryKeyInfo change)
                            wherePlaceholder queryStr values
                   in Inr \<lparr>query_Query = queryStr, query_Args = args\<rparr>
               | DmlDeleteType \<Rightarrow>
                   let (queryStr, args) =
                          delete_where_loop 0 (change_PrimaryKeyInfo change)
                            (''DELETE FROM '' @ formattedTableName)
                            (replicate (length (change_PrimaryKeyInfo change)) NilArg)
                   in Inr \<lparr>query_Query = queryStr, query_Args = args\<rparr>))"

text \<open>The loop over \<^verbatim>\<open>changes\<close>, appending to \<^verbatim>\<open>queries\<close>; a panic ends it.\<close>

fun changes_loop :: "DbDmlChange list \<Rightarrow> Query list \<Rightarrow> panic + Query list" where
  "changes_loop [] queries = Inr queries"
| "changes_loop (change # changes) queries =
     (case change_query change of
        Inl p \<Rightarrow> Inl p
      | Inr newQuery \<Rightarrow> changes_loop changes (queries @ [newQuery]))"

text \<open>
  \<^verbatim>\<open>ExecutePendingChanges\<close>. \<^verbatim>\<open>queriesInTransaction\<close> is defined in another
  file of the package and is the parameter \<open>queriesInTransaction\<close>, already applied to
  \<^verbatim>\<open>db.Connection\<close>.
\<close>

definition ExecutePendingChanges ::
  "(Query list \<Rightarrow> 'r) \<Rightarrow> DbDmlChange list \<Rightarrow> panic + 'r" where
  "ExecutePendingChanges queriesInTransaction changes =
     (case changes_loop changes [] of
        Inl p \<Rightarrow> Inl p
      | Inr queries \<Rightarrow> Inr (queriesInTransaction queries))"

subsection \<open>The rendering the statements are compared with\<close>

text \<open>
  A cell edit binds an argument when its kind is \<open>PlainValue\<close> (\<^verbatim>\<open>models.String\<close>) or
  \<open>Empty\<close>; the argument of an \<open>Empty\<close> cell is the empty string. The ordinal of a cell
  is one more than the number of binding cells before it, and a cell renders as the keyword
  of its kind or as the placeholder of its ordinal.
\<close>

definition binds_argument :: "CellValue \<Rightarrow> bool" where
  "binds_argument cell = (cell_Type cell = String \<or> cell_Type cell = Empty)"

definition bound_argument :: "CellValue \<Rightarrow> arg" where
  "bound_argument cell = (if cell_Type cell = Empty then StringArg [] else StringArg (cell_Value cell))"

definition ordinal_of_cell :: "CellValue list \<Rightarrow> nat \<Rightarrow> nat" where
  "ordinal_of_cell cells j = 1 + length (filter binds_argument (take j cells))"

definition rendered_placeholder :: "CellValue list \<Rightarrow> nat \<Rightarrow> string" where
  "rendered_placeholder cells j =
     (case cell_Type (cells ! j) of
        Default \<Rightarrow> ''DEFAULT''
      | Null \<Rightarrow> ''NULL''
      | _ \<Rightarrow> ''$'' @ decimal (ordinal_of_cell cells j))"

subsection \<open>Example changes\<close>

definition example_update :: DbDmlChange where
  "example_update =
     \<lparr>change_Table = ''dbo.t'', change_Type = DmlUpdateType,
      change_Values = [\<lparr>cell_Type = String, cell_Column = ''a'', cell_Value = ''1''\<rparr>],
      change_PrimaryKeyInfo = [\<lparr>pk_Name = ''id'', pk_Value = ''9''\<rparr>]\<rparr>"

definition example_insert :: DbDmlChange where
  "example_insert =
     \<lparr>change_Table = ''dbo.t'', change_Type = DmlInsertType,
      change_Values = [\<lparr>cell_Type = Default, cell_Column = ''a'', cell_Value = []\<rparr>,
                       \<lparr>cell_Type = String, cell_Column = ''b'', cell_Value = ''x''\<rparr>,
                       \<lparr>cell_Type = Null, cell_Column = ''c'', cell_Value = []\<rparr>,
                       \<lparr>cell_Type = Empty, cell_Column = ''d'', cell_Value = ''ignored''\<rparr>],
      change_PrimaryKeyInfo = []\<rparr>"

definition example_delete_all :: DbDmlChange where
  "example_delete_all =
     \<lparr>change_Table = ''dbo.t'', change_Type = DmlDeleteType,
      change_Values = [], change_PrimaryKeyInfo = []\<rparr>"

section \<open>The driver\<close>

subsection \<open>The connection and its environment\<close>

text \<open>
  A Go \<^verbatim>\<open>error\<close> value, by its message. The driver makes its own with
  \<^verbatim>\<open>errors.New\<close>; every other error comes from the libraries.
\<close>

datatype error = Error string

text \<open>A \<^verbatim>\<open>*sql.DB\<close> handle.\<close>

type_synonym conn = nat

record SqlServer =
  Connection :: conn
  Provider :: string
  CurrentDatabase :: string
  PreviousDatabase :: string
  Urlstr :: string

text \<open>
  What \<^verbatim>\<open>SwitchDatabase\<close> reads off the result of \<^verbatim>\<open>dburl.Parse\<close>:
  \<^verbatim>\<open>User.Username()\<close>, \<^verbatim>\<open>User.Password()\<close>, \<^verbatim>\<open>Host\<close>, \<^verbatim>\<open>Port()\<close> and
  \<^verbatim>\<open>Query().Get("database")\<close>. (In Go the field \<^verbatim>\<open>Host\<close> of a URL that names a port
  is \<^verbatim>\<open>host:port\<close>, and \<^verbatim>\<open>Port()\<close> is that port.)
\<close>

record parsed_url =
  url_Username :: string
  url_Password :: string
  url_Host :: string
  url_Port :: string
  url_QueryDatabase :: string

text \<open>
  A \<^verbatim>\<open>*sql.Rows\<close>: the result of \<^verbatim>\<open>Columns()\<close>, the result of \<^verbatim>\<open>Scan\<close> for each
  row that \<^verbatim>\<open>Next()\<close> announces (a cell is \<open>None\<close> for a database NULL and its text
  otherwise), and the results of \<^verbatim>\<open>Err()\<close> and \<^verbatim>\<open>Close()\<close> after the last row.
\<close>

record rows =
  rows_Columns :: "error + string list"
  rows_Scans :: "(error + string option list) list"
  rows_Err :: "error option"
  rows_Close :: "error option"

text \<open>
  The libraries and the server behind them, as the answers they give to the driver's calls.
  Within one operation the driver never repeats a call to the server, so answers that depend
  only on the call lose nothing.
\<close>

record env =
  dburl_Parse :: "string \<Rightarrow> error + parsed_url"
  sql_Open :: "string \<Rightarrow> error + conn"
  conn_Close :: "conn \<Rightarrow> error option"
  conn_Query :: "conn \<Rightarrow> string \<Rightarrow> string list \<Rightarrow> error + rows"
  conn_QueryRow :: "conn \<Rightarrow> string \<Rightarrow> error + int"
  conn_Exec :: "conn \<Rightarrow> string \<Rightarrow> string list \<Rightarrow> error option"

text \<open>
  What an operation asks of the libraries, in order: handles opened and closed, and the
  statements sent with their bind arguments.
\<close>

datatype event =
    EvOpen string
  | EvClose conn
  | EvQuery conn string "string list"
  | EvQueryRow conn string
  | EvExec conn string "string list"

definition defaultSqlServerPort :: string where
  "defaultSqlServerPort = ''1433''"

subsection \<open>\<^verbatim>\<open>SwitchDatabase\<close>\<close>

text \<open>The connection string that \<^verbatim>\<open>SwitchDatabase\<close> formats and opens.\<close>

definition SwitchDatabase_connection_string :: "parsed_url \<Rightarrow> string \<Rightarrow> string" where
  "SwitchDatabase_connection_string parsedConn database =
     (let user = url_Username parsedConn;
          password = url_Password parsedConn;
          host = url_Host parsedConn;
          port = url_Port parsedConn;
          dbName = url_QueryDatabase parsedConn;
          dbName = (if dbName = [] then database else dbName);
          port = (if port = [] then defaultSqlServerPort else port)
      in ''sqlserver://'' @ user @ '':'' @ password @ ''@'' @ host @ '':'' @ port
         @ ''/?database='' @ dbName)"

definition SwitchDatabase ::
  "env \<Rightarrow> SqlServer \<Rightarrow> string \<Rightarrow> error option \<times> SqlServer \<times> event list" where
  "SwitchDatabase env db database =
     (case dburl_Parse env (Urlstr db) of
        Inl err \<Rightarrow> (Some err, db, [])
      | Inr parsedConn \<Rightarrow>
          let dsn = SwitchDatabase_connection_string parsedConn database
          in (case sql_Open env dsn of
                Inl err \<Rightarrow> (Some err, db, [EvOpen dsn])
              | Inr connection \<Rightarrow>
                  (case conn_Close env (Connection db) of
                     Some err \<Rightarrow> (Some err, db, [EvOpen dsn, EvClose (Connection db)])
                   | None \<Rightarrow>
                       (None,
                        db\<lparr>Connection := connection,
                           PreviousDatabase := CurrentDatabase db,
                           CurrentDatabase := database\<rparr>,
                        [EvOpen dsn, EvClose (Connection db)]))))"

text \<open>
  The step every introspection and read operation starts with after its checks:
  \<^verbatim>\<open>if database != db.CurrentDatabase { err = db.SwitchDatabase(database) ... }\<close>.
  (The deferred \<^verbatim>\<open>recover\<close> that follows it in the source runs only on a panic, and
  after the checks no statement of those operations can panic.)
\<close>

definition switch_if_needed ::
  "env \<Rightarrow> SqlServer \<Rightarrow> string \<Rightarrow> error option \<times> SqlServer \<times> event list" where
  "switch_if_needed env db database =
     (if database \<noteq> CurrentDatabase db then SwitchDatabase env db database
      else (None, db, []))"

subsection \<open>Reading rows\<close>

text \<open>\<^verbatim>\<open>string(*col.(*sql.RawBytes))\<close>: a NULL scans into nil bytes.\<close>

definition RawBytes_string :: "string option \<Rightarrow> string" where
  "RawBytes_string col = (case col of None \<Rightarrow> [] | Some bytes \<Rightarrow> bytes)"

text \<open>The cell of \<^verbatim>\<open>GetRecords\<close>, scanned into a \<^verbatim>\<open>sql.NullString\<close>.\<close>

definition NullString_cell :: "string option \<Rightarrow> string" where
  "NullString_cell col =
     (case col of
        Some s \<Rightarrow> (if s = [] then ''EMPTY&'' else s)
      | None \<Rightarrow> ''NULL&'')"

text \<open>
  The loop \<^verbatim>\<open>for rows.Next() { ... Scan ... append }\<close>, with the function that turns a
  scanned cell into a string.
\<close>

fun rows_loop ::
  "(string option \<Rightarrow> string) \<Rightarrow> (error + string option list) list \<Rightarrow> string list list
   \<Rightarrow> error + string list list" where
  "rows_loop cell [] results = Inr results"
| "rows_loop cell (scan # rest) results =
     (case scan of
        Inl err \<Rightarrow> Inl err
      | Inr rowValues \<Rightarrow> rows_loop cell rest (results @ [map cell rowValues]))"

text \<open>
  The part the four catalog readers share after their query: a failure of
  \<^verbatim>\<open>Columns()\<close> is kept in \<^verbatim>\<open>err\<close> and returned at the end, next to the rows.
\<close>

definition read_catalog_rows :: "rows \<Rightarrow> string list list \<times> error option" where
  "read_catalog_rows rs =
     (let (columns, err) =
            (case rows_Columns rs of
               Inl columnsError \<Rightarrow> ([], Some columnsError)
             | Inr columns \<Rightarrow> (columns, None))
      in (case rows_loop RawBytes_string (rows_Scans rs) [columns] of
            Inl scanErr \<Rightarrow> ([], Some scanErr)
          | Inr results \<Rightarrow>
              (case rows_Err rs of
                 Some rowsErr \<Rightarrow> ([], Some rowsErr)
               | None \<Rightarrow> (results, err))))"

definition catalog_query ::
  "env \<Rightarrow> SqlServer \<Rightarrow> event list \<Rightarrow> string \<Rightarrow> string list
   \<Rightarrow> (string list list \<times> error option) \<times> SqlServer \<times> event list" where
  "catalog_query env db trace query args =
     (case conn_Query env (Connection db) query args of
        Inl err \<Rightarrow> (([], Some err), db, trace @ [EvQuery (Connection db) query args])
      | Inr rs \<Rightarrow> (read_catalog_rows rs, db, trace @ [EvQuery (Connection db) query args]))"

text \<open>
  \<^verbatim>\<open>Scan\<close> into string variables: it fails on a NULL and on a row of another width.
  (The message of \<^verbatim>\<open>database/sql\<close> is longer.)
\<close>

definition Scan_strings :: "nat \<Rightarrow> string option list \<Rightarrow> error + string list" where
  "Scan_strings n rowValues =
     (if length rowValues \<noteq> n \<or> None \<in> set rowValues then Inl (Error ''sql: Scan error'')
      else Inr (map the rowValues))"

subsection \<open>The catalog texts\<close>

definition TAB :: string where
  "TAB = [CHR 0x09]"

definition GetTables_query :: string where
  "GetTables_query =
     ''SELECT [TABLE_NAME], [TABLE_SCHEMA] FROM INFORMATION_SCHEMA.TABLES ORDER BY [TABLE_SCHEMA], [TABLE_NAME];''"

definition GetTableColumns_query :: string where
  "GetTableColumns_query =
     ''SELECT [COLUMN_NAME] FROM INFORMATION_SCHEMA.COLUMNS WHERE [TABLE_SCHEMA] = ? AND [TABLE_NAME] = ? ORDER BY [ORDINAL_POSITION];''"

definition GetConstraints_query :: string where
  "GetConstraints_query =
     concat
       [''\<newline>'',
        ''        SELECT\<newline>'',
        ''            tc.CONSTRAINT_NAME,\<newline>'',
        ''            kcu.COLUMN_NAME,\<newline>'',
        ''            tc.CONSTRAINT_TYPE\<newline>'',
        ''        FROM\<newline>'',
        ''            INFORMATION_SCHEMA.TABLE_CONSTRAINTS AS tc\<newline>'',
        ''            JOIN INFORMATION_SCHEMA.KEY_COLUMN_USAGE AS kcu ON tc.CONSTRAINT_NAME = kcu.CONSTRAINT_NAME\<newline>'',
        ''            AND tc.TABLE_SCHEMA = kcu.TABLE_SCHEMA\<newline>'',
        ''            JOIN INFORMATION_SCHEMA.CONSTRAINT_COLUMN_USAGE AS ccu ON ccu.CONSTRAINT_NAME = tc.CONSTRAINT_NAME\<newline>'',
        ''            AND ccu.TABLE_SCHEMA = tc.TABLE_SCHEMA\<newline>'',
        ''        WHERE\<newline>'',
        ''            tc.CONSTRAINT_TYPE != 'FOREIGN KEY'\<newline>'',
        TAB @ TAB @ TAB @ ''AND tc.TABLE_SCHEMA = ?\<newline>'',
        ''            AND tc.TABLE_NAME = ?;\<newline>'',
        ''            '']"

definition GetForeignKeys_query :: string where
  "GetForeignKeys_query =
     concat
       [''\<newline>'',
        ''        SELECT\<newline>'',
        ''            tc.CONSTRAINT_NAME,\<newline>'',
        ''            kcu.COLUMN_NAME,\<newline>'',
        ''            ccu.TABLE_NAME AS foreign_table_name,\<newline>'',
        ''            ccu.COLUMN_NAME AS foreign_column_name\<newline>'',
        ''        FROM\<newline>'',
        ''            INFORMATION_SCHEMA.table_constraints tc\<newline>'',
        ''            INNER JOIN INFORMATION_SCHEMA.KEY_COLUMN_USAGE kcu\<newline>'',
        ''            '' @ TAB @ ''ON tc.CONSTRAINT_NAME = kcu.CONSTRAINT_NAME\<newline>'',
        ''            '' @ TAB @ TAB @ ''AND tc.TABLE_SCHEMA = kcu.TABLE_SCHEMA\<newline>'',
        ''            INNER JOIN INFORMATION_SCHEMA.CONSTRAINT_COLUMN_USAGE ccu\<newline>'',
        ''                ON ccu.CONSTRAINT_NAME = tc.CONSTRAINT_NAME\<newline>'',
        ''                    AND ccu.TABLE_SCHEMA = tc.TABLE_SCHEMA\<newline>'',
        ''        WHERE\<newline>'',
        ''            tc.CONSTRAINT_TYPE = 'FOREIGN KEY'\<newline>'',
        ''          '' @ TAB @ ''AND tc.TABLE_SCHEMA = ?\<newline>'',
        ''            AND tc.TABLE_NAME = ?;\<newline>'',
        ''  '']"

definition GetIndexes_format :: string where
  "GetIndexes_format =
     concat
       [''\<newline>'',
        ''        SELECT\<newline>'',
        ''            ind.name AS [index_name],\<newline>'',
        ''            col.name AS [column_name],\<newline>'',
        ''        '' @ TAB @ ''ind.type_desc AS [type]\<newline>'',
        ''        FROM\<newline>'',
        ''            sys.indexes ind\<newline>'',
        ''        '' @ TAB @ ''INNER JOIN sys.index_columns ind_col\<newline>'',
        ''        '' @ TAB @ TAB @ ''ON ind.object_id = ind_col.object_id\<newline>'',
        ''        '' @ TAB @ TAB @ TAB @ ''AND ind.index_id = ind_col.index_id\<newline>'',
        ''        '' @ TAB @ ''INNER JOIN sys.columns col\<newline>'',
        ''        '' @ TAB @ TAB @ ''ON ind_col.object_id = col.object_id\<newline>'',
        ''        '' @ TAB @ TAB @ TAB @ ''AND ind_col.column_id = col.column_id\<newline>'',
        ''        '' @ TAB @ ''INNER JOIN sys.tables tab\<newline>'',
        ''        '' @ TAB @ TAB @ ''ON ind.object_id = tab.object_id\<newline>'',
        ''        '' @ TAB @ ''INNER JOIN sys.schemas schem\<newline>'',
        ''        '' @ TAB @ TAB @ ''ON schem.schema_id = tab.schema_id\<newline>'',
        ''        WHERE\<newline>'',
        ''        '' @ TAB @ ''tab.name = ?\<newline>'',
        ''        '' @ TAB @ ''AND schem.name = ?\<newline>'',
        ''            AND ind.is_primary_key = 0\<newline>'',
        ''            AND ind.is_unique = 0\<newline>'',
        ''            AND ind.is_unique_constraint = 0\<newline>'',
        ''            AND tab.is_ms_shipped = 0\<newline>'',
        ''        ORDER BY\<newline>'',
        ''             tab.name,\<newline>'',
        ''        '' @ TAB @ '' ind.name,\<newline>'',
        ''        '' @ TAB @ '' ind.index_id,\<newline>'',
        ''        '' @ TAB @ '' ind_col.is_included_column,\<newline>'',
        ''        '' @ TAB @ '' ind_col.key_ordinal;\<newline>'',
        ''  '']"

definition GetPrimaryKeyColumnNames_query :: string where
  "GetPrimaryKeyColumnNames_query =
     concat
       [''\<newline>'',
        TAB @ ''SELECT ccu.COLUMN_NAME\<newline>'',
        TAB @ ''FROM INFORMATION_SCHEMA.TABLE_CONSTRAINTS tc\<newline>'',
        TAB @ TAB @ ''INNER JOIN INFORMATION_SCHEMA.CONSTRAINT_COLUMN_USAGE ccu\<newline>'',
        TAB @ TAB @ TAB @ ''ON ccu.CONSTRAINT_NAME = tc.CONSTRAINT_NAME\<newline>'',
        TAB @ TAB @ TAB @ TAB @ ''AND ccu.TABLE_SCHEMA = tc.TABLE_SCHEMA\<newline>'',
        TAB @ ''WHERE tc.CONSTRAINT_TYPE = 'PRIMARY KEY'\<newline>'',
        TAB @ TAB @ ''AND tc.TABLE_SCHEMA = ?\<newline>'',
        TAB @ TAB @ ''AND tc.TABLE_NAME = ?\<newline>'',
        TAB @ ''ORDER BY ccu.COLUMN_NAME\<newline>'',
        TAB]"

text \<open>
  \<^verbatim>\<open>fmt.Sprintf(format, a...)\<close> for a format without any verb and string operands: the
  operands that no verb consumes are reported after the text, as
  \<^verbatim>\<open>%!(EXTRA string=a, string=b)\<close>.
\<close>

definition Sprintf_no_verbs :: "string \<Rightarrow> string list \<Rightarrow> string" where
  "Sprintf_no_verbs format a =
     (if a = [] then format
      else format @ ''%!(EXTRA '' @ Join (map (\<lambda>s. ''string='' @ s) a) '', '' @ '')'')"

subsection \<open>Introspection\<close>

text \<open>
  \<^verbatim>\<open>GetTables\<close>. The map \<^verbatim>\<open>tables\<close> is filled row by row:
  \<^verbatim>\<open>tables[tableSchema] = append(tables[tableSchema], tableName)\<close>.
\<close>

fun GetTables_loop ::
  "(error + string option list) list \<Rightarrow> (string \<rightharpoonup> string list)
   \<Rightarrow> error + (string \<rightharpoonup> string list)" where
  "GetTables_loop [] tables = Inr tables"
| "GetTables_loop (scan # rest) tables =
     (case scan of
        Inl err \<Rightarrow> Inl err
      | Inr rowValues \<Rightarrow>
          (case Scan_strings 2 rowValues of
             Inl err \<Rightarrow> Inl err
           | Inr dest \<Rightarrow>
               let tableName = dest ! 0;
                   tableSchema = dest ! 1
               in GetTables_loop rest
                    (tables(tableSchema \<mapsto>
                       (case tables tableSchema of None \<Rightarrow> [] | Some names \<Rightarrow> names)
                       @ [tableName]))))"

definition GetTables ::
  "env \<Rightarrow> SqlServer \<Rightarrow> string
   \<Rightarrow> (error + (string \<rightharpoonup> string list)) \<times> SqlServer \<times> event list" where
  "GetTables env db database =
     (if database = [] then (Inl (Error ''database name is required''), db, [])
      else
        (case switch_if_needed env db database of
           (Some err, db, trace) \<Rightarrow> (Inl err, db, trace)
         | (None, db, trace) \<Rightarrow>
             let query = GetTables_query;
                 trace = trace @ [EvQuery (Connection db) query [database]]
             in (case conn_Query env (Connection db) query [database] of
                   Inl err \<Rightarrow> (Inl err, db, trace)
                 | Inr rs \<Rightarrow>
                     (case GetTables_loop (rows_Scans rs) Map.empty of
                        Inl err \<Rightarrow> (Inl err, db, trace)
                      | Inr tables \<Rightarrow>
                          (case rows_Err rs of
                             Some err \<Rightarrow> (Inl err, db, trace)
                           | None \<Rightarrow> (Inr tables, db, trace))))))"

definition GetTableColumns ::
  "env \<Rightarrow> SqlServer \<Rightarrow> string \<Rightarrow> string
   \<Rightarrow> (string list list \<times> error option) \<times> SqlServer \<times> event list" where
  "GetTableColumns env db database table =
     (if database = [] then (([], Some (Error ''database name is required'')), db, [])
      else if table = [] then (([], Some (Error ''table name is required'')), db, [])
      else
        let splitTableString = Split table (CHR ''.'')
        in if length splitTableString = 1
           then (([], Some (Error ''table must be in the format schema.table'')), db, [])
           else
             (case switch_if_needed env db database of
                (Some err, db, trace) \<Rightarrow> (([], Some err), db, trace)
              | (None, db, trace) \<Rightarrow>
                  let tableSchema = splitTableString ! 0;
                      tableName = splitTableString ! 1
                  in catalog_query env db trace GetTableColumns_query
                       [tableSchema, tableName]))"

definition GetConstraints ::
  "env \<Rightarrow> SqlServer \<Rightarrow> string \<Rightarrow> string
   \<Rightarrow> (string list list \<times> error option) \<times> SqlServer \<times> event list" where
  "GetConstraints env db database table =
     (if database = [] then (([], Some (Error ''database name is required'')), db, [])
      else if table = [] then (([], Some (Error ''table name is required'')), db, [])
      else
        let splitTableString = Split table (CHR ''.'')
        in if length splitTableString = 1
           then (([], Some (Error ''table must be in the format schema.table'')), db, [])
           else
             (case switch_if_needed env db database of
                (Some err, db, trace) \<Rightarrow> (([], Some err), db, trace)
              | (None, db, trace) \<Rightarrow>
                  let tableSchema = splitTableString ! 0;
                      tableName = splitTableString ! 1
                  in catalog_query env db trace GetConstraints_query
                       [tableSchema, tableName]))"

definition GetForeignKeys ::
  "env \<Rightarrow> SqlServer \<Rightarrow> string \<Rightarrow> string
   \<Rightarrow> (string list list \<times> error option) \<times> SqlServer \<times> event list" where
  "GetForeignKeys env db database table =
     (if database = [] then (([], Some (Error ''database name is required'')), db, [])
      else if table = [] then (([], Some (Error ''table name is required'')), db, [])
      else
        let splitTableString = Split table (CHR ''.'')
        in if length splitTableString = 1
           then (([], Some (Error ''table must be in the format schema.table'')), db, [])
           else
             (case switch_if_needed env db database of
                (Some err, db, trace) \<Rightarrow> (([], Some err), db, trace)
              | (None, db, trace) \<Rightarrow>
                  let tableSchema = splitTableString ! 0;
                      tableName = splitTableString ! 1
                  in catalog_query env db trace GetForeignKeys_query
                       [tableSchema, tableName]))"

text \<open>
  \<^verbatim>\<open>GetIndexes\<close> passes the schema and the table to \<^verbatim>\<open>fmt.Sprintf\<close>, not to
  \<^verbatim>\<open>Query\<close>: the statement is the formatted text and has no bind argument.
\<close>

definition GetIndexes ::
  "env \<Rightarrow> SqlServer \<Rightarrow> string \<Rightarrow> string
   \<Rightarrow> (string list list \<times> error option) \<times> SqlServer \<times> event list" where
  "GetIndexes env db database table =
     (if database = [] then (([], Some (Error ''database name is required'')), db, [])
      else if table = [] then (([], Some (Error ''table name is required'')), db, [])
      else
        let splitTableString = Split table (CHR ''.'')
        in if length splitTableString = 1
           then (([], Some (Error ''table must be in the format schema.table'')), db, [])
           else
             (case switch_if_needed env db database of
                (Some err, db, trace) \<Rightarrow> (([], Some err), db, trace)
              | (None, db, trace) \<Rightarrow>
                  let tableSchema = splitTableString ! 0;
                      tableName = splitTableString ! 1
                  in catalog_query env db trace
                       (Sprintf_no_verbs GetIndexes_format [tableSchema, tableName]) []))"

text \<open>
  \<^verbatim>\<open>GetPrimaryKeyColumnNames\<close>. (\<^verbatim>\<open>row.Err()\<close> inside the loop is nil while
  \<^verbatim>\<open>Next()\<close> announces rows; the check after the loop is \<open>rows_Err\<close>.)
\<close>

fun GetPrimaryKeyColumnNames_loop ::
  "(error + string option list) list \<Rightarrow> string list \<Rightarrow> error + string list" where
  "GetPrimaryKeyColumnNames_loop [] primaryKeyColumnName = Inr primaryKeyColumnName"
| "GetPrimaryKeyColumnNames_loop (scan # rest) primaryKeyColumnName =
     (case scan of
        Inl err \<Rightarrow> Inl err
      | Inr rowValues \<Rightarrow>
          (case Scan_strings 1 rowValues of
             Inl err \<Rightarrow> Inl err
           | Inr dest \<Rightarrow>
               GetPrimaryKeyColumnNames_loop rest (primaryKeyColumnName @ [dest ! 0])))"

definition GetPrimaryKeyColumnNames ::
  "env \<Rightarrow> SqlServer \<Rightarrow> string \<Rightarrow> string
   \<Rightarrow> (error + string list) \<times> SqlServer \<times> event list" where
  "GetPrimaryKeyColumnNames env db database table =
     (if database = [] then (Inl (Error ''database name is required''), db, [])
      else if table = [] then (Inl (Error ''table name is required''), db, [])
      else
        let splitTableString = Split table (CHR ''.'')
        in if length splitTableString = 1
           then (Inl (Error ''table must be in the format schema.table''), db, [])
           else
             (case switch_if_needed env db database of
                (Some err, db, trace) \<Rightarrow> (Inl err, db, trace)
              | (None, db, trace) \<Rightarrow>
                  let schemaName = splitTableString ! 0;
                      tableName = splitTableString ! 1;
                      query = GetPrimaryKeyColumnNames_query;
                      trace = trace @ [EvQuery (Connection db) query [schemaName, tableName]]
                  in (case conn_Query env (Connection db) query [schemaName, tableName] of
                        Inl err \<Rightarrow> (Inl err, db, trace)
                      | Inr rs \<Rightarrow>
                          (case GetPrimaryKeyColumnNames_loop (rows_Scans rs) [] of
                             Inl err \<Rightarrow> (Inl err, db, trace)
                           | Inr primaryKeyColumnName \<Rightarrow>
                               (case rows_Err rs of
                                  Some err \<Rightarrow> (Inl err, db, trace)
                                | None \<Rightarrow> (Inr primaryKeyColumnName, db, trace))))))"

subsection \<open>Reading records\<close>

text \<open>
  The statement of \<^verbatim>\<open>GetRecords\<close>. \<^verbatim>\<open>DefaultRowLimit\<close> is a constant of the
  package defined in another file, and a parameter here.
\<close>

definition GetRecords_query ::
  "int \<Rightarrow> string \<Rightarrow> string \<Rightarrow> string \<Rightarrow> int \<Rightarrow> int \<Rightarrow> string" where
  "GetRecords_query DefaultRowLimit formattedTableName whereClause sortClause offset limit =
     (let isPaginationEnabled = (offset > 0 \<or> limit > 0);
          limit = (if limit = 0 then DefaultRowLimit else limit);
          query = ''SELECT * FROM '';
          query = query @ formattedTableName;
          query = (if whereClause \<noteq> [] then query @ '' '' @ whereClause else query);
          query = (if sortClause \<noteq> [] then query @ '' ORDER BY '' @ sortClause
                   else if isPaginationEnabled then query @ '' ORDER BY (SELECT NULL)''
                   else query)
      in query @ '' OFFSET '' @ fmt_d offset @ '' ROWS FETCH NEXT '' @ fmt_d limit
         @ '' ROWS ONLY'')"

definition GetRecords ::
  "int \<Rightarrow> env \<Rightarrow> SqlServer \<Rightarrow> string \<Rightarrow> string \<Rightarrow> string \<Rightarrow> string \<Rightarrow> int \<Rightarrow> int
   \<Rightarrow> (string list list \<times> int \<times> error option) \<times> SqlServer \<times> event list" where
  "GetRecords DefaultRowLimit env db database table whereClause sortClause offset limit =
     (if database = [] then (([], 0, Some (Error ''database name is required'')), db, [])
      else if table = [] then (([], 0, Some (Error ''table name is required'')), db, [])
      else
        let splitTableString = Split table (CHR ''.'')
        in if length splitTableString = 1
           then (([], 0, Some (Error ''table must be in the format schema.table'')), db, [])
           else
             (case switch_if_needed env db database of
                (Some err, db, trace) \<Rightarrow> (([], 0, Some err), db, trace)
              | (None, db, trace) \<Rightarrow>
                  let tableSchema = splitTableString ! 0;
                      tableName = splitTableString ! 1;
                      formattedTableName = formatTableName tableSchema tableName;
                      query = GetRecords_query DefaultRowLimit formattedTableName
                                whereClause sortClause offset limit;
                      trace = trace @ [EvQuery (Connection db) query []]
                  in (case conn_Query env (Connection db) query [] of
                        Inl err \<Rightarrow> (([], 0, Some err), db, trace)
                      | Inr paginatedRows \<Rightarrow>
                          (case rows_Columns paginatedRows of
                             Inl columnsError \<Rightarrow> (([], 0, Some columnsError), db, trace)
                           | Inr columns \<Rightarrow>
                               (case rows_loop NullString_cell (rows_Scans paginatedRows)
                                       [columns] of
                                  Inl err \<Rightarrow> (([], 0, Some err), db, trace)
                                | Inr records \<Rightarrow>
                                    (case rows_Err paginatedRows of
                                       Some err \<Rightarrow> (([], 0, Some err), db, trace)
                                     | None \<Rightarrow>
                                         (case rows_Close paginatedRows of
                                            Some err \<Rightarrow> (([], 0, Some err), db, trace)
                                          | None \<Rightarrow>
                                              let countQuery =
                                                    ''SELECT COUNT(*) FROM '' @ formattedTableName;
                                                  trace = trace
                                                    @ [EvQueryRow (Connection db) countQuery]
                                              in (case conn_QueryRow env (Connection db)
                                                         countQuery of
                                                    Inl err \<Rightarrow> (([], 0, Some err), db, trace)
                                                  | Inr totalRecords \<Rightarrow>
                                                      ((records, totalRecords, None), db,
                                                       trace)))))))))"

definition ExecuteQuery ::
  "env \<Rightarrow> SqlServer \<Rightarrow> string
   \<Rightarrow> (string list list \<times> error option) \<times> SqlServer \<times> event list" where
  "ExecuteQuery env db query =
     (let trace = [EvQuery (Connection db) query []]
      in (case conn_Query env (Connection db) query [] of
            Inl err \<Rightarrow> (([], Some err), db, trace)
          | Inr rs \<Rightarrow>
              (case rows_Columns rs of
                 Inl err \<Rightarrow> (([], Some err), db, trace)
               | Inr columns \<Rightarrow>
                   (case rows_loop RawBytes_string (rows_Scans rs) [columns] of
                      Inl err \<Rightarrow> (([], Some err), db, trace)
                    | Inr results \<Rightarrow>
                        (case rows_Err rs of
                           Some err \<Rightarrow> (([], Some err), db, trace)
                         | None \<Rightarrow> ((results, None), db, trace))))))"

subsection \<open>Writing one record\<close>

text \<open>The statements of \<^verbatim>\<open>UpdateRecord\<close> and \<^verbatim>\<open>DeleteRecord\<close>.\<close>

definition UpdateRecord_query :: "string \<Rightarrow> string \<Rightarrow> string \<Rightarrow> string" where
  "UpdateRecord_query formattedTableName column primaryKeyColumnName =
     ''UPDATE '' @ formattedTableName
     @ '' SET ['' @ column @ ''] = ? WHERE ['' @ primaryKeyColumnName @ ''] = ?''"

definition DeleteRecord_query :: "string \<Rightarrow> string \<Rightarrow> string" where
  "DeleteRecord_query formattedTableName primaryKeyColumnName =
     ''DELETE FROM '' @ formattedTableName @ '' WHERE ['' @ primaryKeyColumnName @ ''] = ?''"

definition UpdateRecord ::
  "env \<Rightarrow> SqlServer \<Rightarrow> string \<Rightarrow> string \<Rightarrow> string \<Rightarrow> string \<Rightarrow> string \<Rightarrow> string
   \<Rightarrow> error option \<times> SqlServer \<times> event list" where
  "UpdateRecord env db database table column value primaryKeyColumnName primaryKeyValue =
     (if database = [] then (Some (Error ''database name is required''), db, [])
      else if table = [] then (Some (Error ''table name is required''), db, [])
      else if column = [] then (Some (Error ''column name is required''), db, [])
      else if value = [] then (Some (Error ''value is required''), db, [])
      else if primaryKeyColumnName = []
        then (Some (Error ''primary key column name is required''), db, [])
      else if primaryKeyValue = []
        then (Some (Error ''primary key value is required''), db, [])
      else
        let splitTableString = Split table (CHR ''.'')
        in if length splitTableString = 1
           then (Some (Error ''table must be in the format schema.table''), db, [])
           else
             let (err, db, trace, switchDatabaseOnError) =
                   (if database \<noteq> CurrentDatabase db
                    then (case SwitchDatabase env db database of
                            (Some err, db, trace) \<Rightarrow> (Some err, db, trace, False)
                          | (None, db, trace) \<Rightarrow> (None, db, trace, True))
                    else (None, db, [], False))
             in (case err of
                   Some err \<Rightarrow> (Some err, db, trace)
                 | None \<Rightarrow>
                     let tableSchema = splitTableString ! 0;
                         tableName = splitTableString ! 1;
                         formattedTableName = formatTableName tableSchema tableName;
                         query = UpdateRecord_query formattedTableName column
                                   primaryKeyColumnName;
                         err = conn_Exec env (Connection db) query [value, primaryKeyValue];
                         trace = trace @ [EvExec (Connection db) query [value, primaryKeyValue]]
                     in if err \<noteq> None \<and> switchDatabaseOnError
                        then (case SwitchDatabase env db (PreviousDatabase db) of
                                (err, db, trace') \<Rightarrow> (err, db, trace @ trace'))
                        else (err, db, trace)))"

definition DeleteRecord ::
  "env \<Rightarrow> SqlServer \<Rightarrow> string \<Rightarrow> string \<Rightarrow> string \<Rightarrow> string
   \<Rightarrow> error option \<times> SqlServer \<times> event list" where
  "DeleteRecord env db database table primaryKeyColumnName primaryKeyValue =
     (if database = [] then (Some (Error ''database name is required''), db, [])
      else if table = [] then (Some (Error ''table name is required''), db, [])
      else if primaryKeyColumnName = []
        then (Some (Error ''primary key column name is required''), db, [])
      else if primaryKeyValue = []
        then (Some (Error ''primary key value is required''), db, [])
      else
        let splitTableString = Split table (CHR ''.'')
        in if length splitTableString = 1
           then (Some (Error ''table must be in the format schema.table''), db, [])
           else
             let (err, db, trace, switchDatabaseOnError) =
                   (if database \<noteq> CurrentDatabase db
                    then (case SwitchDatabase env db database of
                            (Some err, db, trace) \<Rightarrow> (Some err, db, trace, False)
                          | (None, db, trace) \<Rightarrow> (None, db, trace, True))
                    else (None, db, [], False))
             in (case err of
                   Some err \<Rightarrow> (Some err, db, trace)
                 | None \<Rightarrow>
                     let tableSchema = splitTableString ! 0;
                         tableName = splitTableString ! 1;
                         formattedTableName = formatTableName tableSchema tableName;
                         query = DeleteRecord_query formattedTableName primaryKeyColumnName;
                         err = conn_Exec env (Connection db) query [primaryKeyValue];
                         trace = trace @ [EvExec (Connection db) query [primaryKeyValue]]
                     in if err \<noteq> None \<and> switchDatabaseOnError
                        then (case SwitchDatabase env db (PreviousDatabase db) of
                                (err, db, trace') \<Rightarrow> (err, db, trace @ trace'))
                        else (err, db, trace)))"

subsection \<open>An example session\<close>

text \<open>
  A session on the database \<open>app\<close>, and a server whose every query returns one column with
  a NULL in the first row and an empty string in the second.
\<close>

definition example_session :: SqlServer where
  "example_session =
     \<lparr>Connection = 0, Provider = ''sqlserver'', CurrentDatabase = ''app'',
      PreviousDatabase = [], Urlstr = ''sqlserver://sa:pw@localhost''\<rparr>"

definition example_url :: parsed_url where
  "example_url =
     \<lparr>url_Username = ''sa'', url_Password = ''pw'', url_Host = ''localhost'',
      url_Port = [], url_QueryDatabase = []\<rparr>"

definition example_rows :: rows where
  "example_rows =
     \<lparr>rows_Columns = Inr [''name''], rows_Scans = [Inr [None], Inr [Some []]],
      rows_Err = None, rows_Close = None\<rparr>"

definition example_env :: env where
  "example_env =
     \<lparr>dburl_Parse = (\<lambda>urlstr. Inr example_url),
      sql_Open = (\<lambda>dsn. Inr 1),
      conn_Close = (\<lambda>c. None),
      conn_Query = (\<lambda>c query args. Inr example_rows),
      conn_QueryRow = (\<lambda>c query. Inr 2),
      conn_Exec = (\<lambda>c query args. None)\<rparr>"

text \<open>The same server, refusing every statement it is asked to execute.\<close>

definition exec_fails_env :: env where
  "exec_fails_env =
     example_env\<lparr>conn_Exec := (\<lambda>c query args. Some (Error ''constraint violation''))\<rparr>"

text \<open>
  The same server and session, with a connection string that names the database \<open>master\<close>.
\<close>

definition url_with_database_env :: env where
  "url_with_database_env =
     example_env\<lparr>dburl_Parse := (\<lambda>urlstr. Inr (example_url\<lparr>url_QueryDatabase := ''master''\<rparr>))\<rparr>"

definition session_with_database :: SqlServer where
  "session_with_database =
     example_session\<lparr>Urlstr := ''sqlserver://sa:pw@localhost?database=master''\<rparr>"

text \<open>What is read off the connection string \<^verbatim>\<open>sqlserver://sa:pw@localhost:1444\<close>.\<close>

definition example_url_with_port :: parsed_url where
  "example_url_with_port = example_url\<lparr>url_Host := ''localhost:1444'', url_Port := ''1444''\<rparr>"

text \<open>The parameter markers of a statement text: its question marks.\<close>

definition parameter_markers :: "string \<Rightarrow> nat" where
  "parameter_markers text = length (filter (\<lambda>c. c = CHR ''?'') text)"

subsection \<open>Validation errors\<close>

text \<open>The errors the driver makes itself when it checks its arguments.\<close>

definition is_validation_error :: "error \<Rightarrow> bool" where
  "is_validation_error err =
     (err \<in> set [Error ''database name is required'',
                 Error ''table name is required'',
                 Error ''column name is required'',
                 Error ''value is required'',
                 Error ''primary key column name is required'',
                 Error ''primary key value is required'',
                 Error ''table must be in the format schema.table''])"

subsection \<open>The transaction\<close>

text \<open>
  Modelled from the spec: the statements of one batch execute in the order supplied, and
  the first failure ends the batch with its error. The contents of the database are a
  state \<open>'s\<close>; executing a statement fails or gives the next contents.
\<close>

fun statements_loop ::
  "('s \<Rightarrow> Query \<Rightarrow> error + 's) \<Rightarrow> 's \<Rightarrow> Query list \<Rightarrow> error + 's" where
  "statements_loop exec s [] = Inr s"
| "statements_loop exec s (query # queries) =
     (case exec s query of
        Inl err \<Rightarrow> Inl err
      | Inr s' \<Rightarrow> statements_loop exec s' queries)"

text \<open>
  Modelled from the spec: \<^verbatim>\<open>queriesInTransaction\<close>, which is defined in another file of
  the package. The spec says that all statements of one batch execute inside one
  transaction, and that if any statement fails, all effects of the batch are rolled back and
  the first error encountered is returned. The result is the error, if any, with the
  contents the transaction leaves: those before the batch after a rollback, those after the
  last statement after a commit.
\<close>

definition queriesInTransaction ::
  "('s \<Rightarrow> Query \<Rightarrow> error + 's) \<Rightarrow> 's \<Rightarrow> Query list \<Rightarrow> error option \<times> 's" where
  "queriesInTransaction exec s queries =
     (case statements_loop exec s queries of
        Inl err \<Rightarrow> (Some err, s)
      | Inr s' \<Rightarrow> (None, s'))"

text \<open>
  An example server for a batch: its contents are the statements applied so far, and it
  refuses the statement whose only argument is \<open>duplicate\<close>.
\<close>

definition example_exec :: "string list \<Rightarrow> Query \<Rightarrow> error + string list" where
  "example_exec s query =
     (if query_Args query = [StringArg ''duplicate''] then Inl (Error ''constraint violation'')
      else Inr (s @ [query_Query query]))"

definition example_failing_insert :: DbDmlChange where
  "example_failing_insert =
     \<lparr>change_Table = ''dbo.t'', change_Type = DmlInsertType,
      change_Values = [\<lparr>cell_Type = String, cell_Column = ''id'', cell_Value = ''duplicate''\<rparr>],
      change_PrimaryKeyInfo = []\<rparr>"

section \<open>Properties\<close>

subsection \<open>Library functions\<close>

lemma Split_not_Nil: "Split s sep \<noteq> []"
  by (induction s) (auto split: list.splits)

lemma length_Split: "length (Split s sep) = 1 + length (filter (\<lambda>c. c = sep) s)"
  by (induction s) (auto split: list.splits simp: Split_not_Nil)

lemma length_valuesPlaceholder_loop: "length (valuesPlaceholder_loop cells k) = length cells"
  by (induction cells arbitrary: k) (auto split: CellValueType.splits)

lemma nth_valuesPlaceholder_loop:
  "j < length cells \<Longrightarrow>
   valuesPlaceholder_loop cells k ! j =
     (case cell_Type (cells ! j) of
        Default \<Rightarrow> ''DEFAULT''
      | Null \<Rightarrow> ''NULL''
      | _ \<Rightarrow> ''$'' @ decimal (k + length (filter binds_argument (take j cells))))"
proof (induction cells arbitrary: k j)
  case Nil
  then show ?case by simp
next
  case (Cons cell cells)
  show ?case
  proof (cases j)
    case 0
    then show ?thesis by (simp split: CellValueType.splits)
  next
    case (Suc j')
    with Cons.prems have "j' < length cells" by simp
    from Cons.IH [OF this] Suc show ?thesis
      by (cases "cell_Type cell"; cases "cell_Type (cells ! j')") (simp_all add: binds_argument_def)
  qed
qed

lemma values_loop_filter: "values_loop cells = map bound_argument (filter binds_argument cells)"
  by (induction cells) (auto simp: binds_argument_def bound_argument_def split: CellValueType.splits)

lemma wherePlaceholder_loop_count:
  "wherePlaceholder_loop (valuesPlaceholder_loop cells k) w = w + length (filter binds_argument cells)"
  by (induction cells arbitrary: k w)
     (auto simp: binds_argument_def Contains_def split: CellValueType.splits)

lemma set_loop_concat:
  "set_loop i columnNames ph q =
     q @ concat (map (\<lambda>j. (if i + j = 0 then '' SET ['' else '', ['') @ columnNames ! j
                          @ ''] = '' @ ph ! (i + j)) [0..<length columnNames])"
proof (induction columnNames arbitrary: i q)
  case Nil
  then show ?case by simp
next
  case (Cons column columnNames)
  have "[0..<length (column # columnNames)] = 0 # map Suc [0..<length columnNames]"
    by (simp add: upt_conv_Cons map_Suc_upt del: upt_Suc)
  then show ?case
    by (simp add: Cons.IH comp_def del: upt_Suc)
qed

lemma update_where_loop_concat:
  "update_where_loop i pks w q args =
     (q @ concat (map (\<lambda>j. (if i + j = 0 then '' WHERE ['' else '' AND ['') @ pk_Name (pks ! j)
                          @ ''] = $'' @ decimal (w + j + 1)) [0..<length pks]),
      args @ map (\<lambda>p. StringArg (pk_Value p)) pks)"
proof (induction pks arbitrary: i w q args)
  case Nil
  then show ?case by simp
next
  case (Cons pki pks)
  have "[0..<length (pki # pks)] = 0 # map Suc [0..<length pks]"
    by (simp add: upt_conv_Cons map_Suc_upt del: upt_Suc)
  then show ?case
    by (simp add: Cons.IH comp_def Let_def del: upt_Suc)
qed

lemma delete_where_loop_concat:
  "i + length pks \<le> length args \<Longrightarrow>
   delete_where_loop i pks q args =
     (q @ concat (map (\<lambda>j. (if i + j = 0 then '' WHERE ['' else '' AND ['') @ pk_Name (pks ! j)
                          @ ''] = $'' @ decimal (i + j + 1)) [0..<length pks]),
      take i args @ map (\<lambda>p. StringArg (pk_Value p)) pks @ drop (i + length pks) args)"
proof (induction pks arbitrary: i q args)
  case Nil
  then show ?case by simp
next
  case (Cons pki pks)
  have u: "[0..<length (pki # pks)] = 0 # map Suc [0..<length pks]"
    by (simp add: upt_conv_Cons map_Suc_upt del: upt_Suc)
  from Cons.prems have l: "i < length args" by simp
  have t: "take (Suc i) (args[i := StringArg (pk_Value pki)]) = take i args @ [StringArg (pk_Value pki)]"
    using l by (simp add: take_Suc_conv_app_nth)
  from Cons.prems have "Suc i + length pks \<le> length (args[i := StringArg (pk_Value pki)])" by simp
  from Cons.IH [OF this, of "q'" for q'] u t show ?case
    by (simp add: comp_def del: upt_Suc)
qed

lemma valuesPlaceholder_loop_rendered:
  "valuesPlaceholder_loop cells (Suc 0) = map (rendered_placeholder cells) [0..<length cells]"
  by (rule nth_equalityI)
     (simp_all add: length_valuesPlaceholder_loop nth_valuesPlaceholder_loop
        rendered_placeholder_def ordinal_of_cell_def split: CellValueType.splits)

lemma length_Split_ge2: "(length (Split s sep) < 2) = (sep \<notin> set s)"
proof -
  have "(length (filter (\<lambda>c. c = sep) s) = 0) = (sep \<notin> set s)"
    by (induction s) auto
  then show ?thesis
    by (simp add: length_Split)
qed

lemma set_loop_rendered:
  "set_loop 0 (columnNames_loop cells) (valuesPlaceholder_loop cells (Suc 0)) q =
     q @ concat (map (\<lambda>j. (if j = 0 then '' SET ['' else '', ['')
                          @ cell_Column (cells ! j) @ ''] = ''
                          @ rendered_placeholder cells j) [0..<length cells])"
proof -
  have "map (\<lambda>j. (if 0 + j = 0 then '' SET ['' else '', ['')
                     @ columnNames_loop cells ! j @ ''] = ''
                     @ valuesPlaceholder_loop cells (Suc 0) ! (0 + j))
            [0..<length (columnNames_loop cells)]
      = map (\<lambda>j. (if j = 0 then '' SET ['' else '', ['')
                     @ cell_Column (cells ! j) @ ''] = ''
                     @ rendered_placeholder cells j) [0..<length cells]"
    by (rule map_cong) (simp_all add: valuesPlaceholder_loop_rendered columnNames_loop_def)
  then show ?thesis
    by (simp only: set_loop_concat)
qed

lemma change_query_update:
  assumes "change_Type change = DmlUpdateType"
      and "change_query change = Inr q"
  shows "query_Query q =
           ''UPDATE ''
           @ formatTableName (Split (change_Table change) (CHR ''.'') ! 0)
               (Split (change_Table change) (CHR ''.'') ! 1)
           @ concat (map (\<lambda>j. (if j = 0 then '' SET ['' else '', ['')
                                @ cell_Column (change_Values change ! j) @ ''] = ''
                                @ rendered_placeholder (change_Values change) j)
                       [0..<length (change_Values change)])
           @ concat (map (\<lambda>j. (if j = 0 then '' WHERE ['' else '' AND ['')
                                @ pk_Name (change_PrimaryKeyInfo change ! j) @ ''] = $''
                                @ decimal (length (filter binds_argument (change_Values change)) + j + 1))
                       [0..<length (change_PrimaryKeyInfo change)])
         \<and> query_Args q =
             map bound_argument (filter binds_argument (change_Values change))
             @ map (\<lambda>p. StringArg (pk_Value p)) (change_PrimaryKeyInfo change)"
  using assms
  by (auto simp: change_query_def Let_def set_loop_rendered
        update_where_loop_concat wherePlaceholder_loop_count values_loop_filter
        split: if_splits)

subsection \<open>The statements of pending changes\<close>

lemma change_query_insert:
  assumes "change_Type change = DmlInsertType"
      and "change_query change = Inr q"
  shows "query_Query q =
           ''INSERT INTO ''
           @ formatTableName (Split (change_Table change) (CHR ''.'') ! 0)
               (Split (change_Table change) (CHR ''.'') ! 1)
           @ '' ('' @ Join (map cell_Column (change_Values change)) '', '' @ '') VALUES (''
           @ Join (map (rendered_placeholder (change_Values change))
                     [0..<length (change_Values change)]) '', '' @ '')''
         \<and> query_Args q = map bound_argument (filter binds_argument (change_Values change))"
  using assms
  by (auto simp: change_query_def Let_def columnNames_loop_def valuesPlaceholder_loop_rendered
        values_loop_filter split: if_splits)

lemma changes_loop_Inr:
  "changes_loop changes acc = Inr queries \<Longrightarrow>
   \<exists>qs. queries = acc @ qs \<and> list_all2 (\<lambda>c q. change_query c = Inr q) changes qs"
proof (induction changes arbitrary: acc)
  case Nil
  then show ?case by simp
next
  case (Cons change changes)
  then obtain q where q: "change_query change = Inr q"
    by (cases "change_query change") simp_all
  with Cons.prems have "changes_loop changes (acc @ [q]) = Inr queries" by simp
  from Cons.IH [OF this] obtain qs where
    "queries = (acc @ [q]) @ qs" "list_all2 (\<lambda>c q. change_query c = Inr q) changes qs"
    by blast
  with q have "queries = acc @ (q # qs)
      \<and> list_all2 (\<lambda>c q. change_query c = Inr q) (change # changes) (q # qs)"
    by simp
  then show ?case by blast
qed



lemma changes_loop_length:
  assumes "changes_loop changes [] = Inr queries"
  shows "length queries = length changes"
  using changes_loop_Inr [OF assms] by (auto simp: list_all2_lengthD)

lemma changes_loop_nth:
  assumes "changes_loop changes [] = Inr queries" and "i < length changes"
  shows "change_query (changes ! i) = Inr (queries ! i)"
proof -
  from changes_loop_Inr [OF assms(1)]
  have "list_all2 (\<lambda>c q. change_query c = Inr q) changes queries" by simp
  from list_all2_nthD [OF this assms(2)] show ?thesis .
qed


text \<open>
  Claim C4. In a batch of inserts whose statements are built (every table has its dot),
  each statement binds as many arguments as its change has \<open>PlainValue\<close> and \<open>Empty\<close>
  cells: the arguments are those cells' values in order, the empty string for \<open>Empty\<close>;
  a \<open>Default\<close> or \<open>Null\<close> cell renders as its keyword and binds nothing, and every other
  cell renders as the placeholder of the next ordinal.
\<close>

theorem insert_batch_bound_arguments:
  assumes "\<forall>change \<in> set changes. change_Type change = DmlInsertType"
      and "changes_loop changes [] = Inr queries"
  shows "length queries = length changes
         \<and> (\<forall>i < length changes.
               length (query_Args (queries ! i))
                 = length (filter binds_argument (change_Values (changes ! i)))
               \<and> query_Args (queries ! i)
                 = map bound_argument (filter binds_argument (change_Values (changes ! i)))
               \<and> query_Query (queries ! i)
                 = ''INSERT INTO ''
                   @ formatTableName (Split (change_Table (changes ! i)) (CHR ''.'') ! 0)
                       (Split (change_Table (changes ! i)) (CHR ''.'') ! 1)
                   @ '' ('' @ Join (map cell_Column (change_Values (changes ! i))) '', ''
                   @ '') VALUES (''
                   @ Join (map (rendered_placeholder (change_Values (changes ! i)))
                             [0..<length (change_Values (changes ! i))]) '', '' @ '')'')"
proof (intro conjI allI impI)
  show "length queries = length changes"
    by (rule changes_loop_length [OF assms(2)])
next
  fix i assume i: "i < length changes"
  then have t: "change_Type (changes ! i) = DmlInsertType"
    using assms(1) by simp
  have q: "change_query (changes ! i) = Inr (queries ! i)"
    by (rule changes_loop_nth [OF assms(2) i])
  note r = change_query_insert [OF t q]
  from r show a: "query_Args (queries ! i)
     = map bound_argument (filter binds_argument (change_Values (changes ! i)))"
    by simp
  then show "length (query_Args (queries ! i))
     = length (filter binds_argument (change_Values (changes ! i)))"
    by simp
  from r show "query_Query (queries ! i)
                 = ''INSERT INTO ''
                   @ formatTableName (Split (change_Table (changes ! i)) (CHR ''.'') ! 0)
                       (Split (change_Table (changes ! i)) (CHR ''.'') ! 1)
                   @ '' ('' @ Join (map cell_Column (change_Values (changes ! i))) '', ''
                   @ '') VALUES (''
                   @ Join (map (rendered_placeholder (change_Values (changes ! i)))
                             [0..<length (change_Values (changes ! i))]) '', '' @ '')''"
    by blast
qed

lemma example_insert_query:
  "changes_loop [example_insert] [] =
     Inr [\<lparr>query_Query = ''INSERT INTO [dbo].[t] (a, b, c, d) VALUES (DEFAULT, $1, NULL, $2)'',
           query_Args = [StringArg ''x'', StringArg []]\<rparr>]"
  by code_simp

theorem insert_batch_bound_arguments_witness:
  "change_Type example_insert = DmlInsertType
   \<and> changes_loop [example_insert] [] =
       Inr [\<lparr>query_Query = ''INSERT INTO [dbo].[t] (a, b, c, d) VALUES (DEFAULT, $1, NULL, $2)'',
             query_Args = [StringArg ''x'', StringArg []]\<rparr>]
   \<and> length (filter binds_argument (change_Values example_insert)) = 2"
proof -
  have t: "change_Type example_insert = DmlInsertType"
    by (simp add: example_insert_def)
  then have h: "\<forall>change \<in> set [example_insert]. change_Type change = DmlInsertType"
    by simp
  from insert_batch_bound_arguments [OF h example_insert_query]
  have "length (filter binds_argument (change_Values example_insert)) = 2"
    by simp
  with t example_insert_query show ?thesis by blast
qed

text \<open>
  Claim C3. The statement of an update numbers its placeholders in one sequence: the SET
  clause uses the ordinals of its binding cells, the \<open>j\<close>-th primary-key equality of the
  WHERE clause (counting from 0) uses the ordinal \<open>k + j + 1\<close>, where \<open>k\<close> is the number of
  binding cells, and the arguments are the SET arguments followed by the primary-key values
  in the order of the descriptors.
\<close>

theorem update_placeholders_numbered_globally:
  assumes "change_Type change = DmlUpdateType"
      and "change_query change = Inr q"
  shows "query_Query q =
           ''UPDATE ''
           @ formatTableName (Split (change_Table change) (CHR ''.'') ! 0)
               (Split (change_Table change) (CHR ''.'') ! 1)
           @ concat (map (\<lambda>j. (if j = 0 then '' SET ['' else '', ['')
                                @ cell_Column (change_Values change ! j) @ ''] = ''
                                @ rendered_placeholder (change_Values change) j)
                       [0..<length (change_Values change)])
           @ concat (map (\<lambda>j. (if j = 0 then '' WHERE ['' else '' AND ['')
                                @ pk_Name (change_PrimaryKeyInfo change ! j) @ ''] = $''
                                @ decimal (length (filter binds_argument (change_Values change)) + j + 1))
                       [0..<length (change_PrimaryKeyInfo change)])
         \<and> query_Args q =
             map bound_argument (filter binds_argument (change_Values change))
             @ map (\<lambda>p. StringArg (pk_Value p)) (change_PrimaryKeyInfo change)"
  by (rule change_query_update [OF assms])

lemma example_update_query:
  "change_query example_update =
     Inr \<lparr>query_Query = ''UPDATE [dbo].[t] SET [a] = $1 WHERE [id] = $2'',
          query_Args = [StringArg ''1'', StringArg ''9'']\<rparr>"
  by code_simp

theorem update_placeholders_numbered_globally_witness:
  "change_Type example_update = DmlUpdateType
   \<and> change_query example_update =
       Inr \<lparr>query_Query = ''UPDATE [dbo].[t] SET [a] = $1 WHERE [id] = $2'',
            query_Args = [StringArg ''1'', StringArg ''9'']\<rparr>
   \<and> map bound_argument (filter binds_argument (change_Values example_update))
       @ map (\<lambda>p. StringArg (pk_Value p)) (change_PrimaryKeyInfo example_update)
     = [StringArg ''1'', StringArg ''9'']"
proof -
  have h: "change_Type example_update = DmlUpdateType"
    by (simp add: example_update_def)
  from update_placeholders_numbered_globally [OF h example_update_query]
  have "map bound_argument (filter binds_argument (change_Values example_update))
       @ map (\<lambda>p. StringArg (pk_Value p)) (change_PrimaryKeyInfo example_update)
     = [StringArg ''1'', StringArg ''9'']"
    by simp
  with h example_update_query show ?thesis by blast
qed



subsection \<open>The context switch\<close>

lemma SwitchDatabase_opens:
  assumes "dburl_Parse env (Urlstr db) = Inr parsedConn"
  shows "\<exists>rest. snd (snd (SwitchDatabase env db database))
           = EvOpen (SwitchDatabase_connection_string parsedConn database) # rest"
  using assms
  by (simp add: SwitchDatabase_def Let_def split: sum.splits option.splits)

text \<open>
  The connection string that \<^verbatim>\<open>SwitchDatabase\<close> opens when the original one parses:
  the database is the target only when the original connection string names none.
\<close>

lemma SwitchDatabase_opened_connection_string:
  assumes "dburl_Parse env (Urlstr db) = Inr parsedConn"
  shows "\<exists>rest. snd (snd (SwitchDatabase env db database))
           = EvOpen (''sqlserver://'' @ url_Username parsedConn @ '':'' @ url_Password parsedConn
                     @ ''@'' @ url_Host parsedConn @ '':''
                     @ (if url_Port parsedConn = [] then ''1433'' else url_Port parsedConn)
                     @ ''/?database=''
                     @ (if url_QueryDatabase parsedConn = [] then database
                        else url_QueryDatabase parsedConn)) # rest"
  using SwitchDatabase_opens [OF assms, of database]
  by (cases "url_Port parsedConn = []"; cases "url_QueryDatabase parsedConn = []")
     (simp_all add: SwitchDatabase_connection_string_def Let_def defaultSqlServerPort_def)

text \<open>
  Claim C6 fails on the code. With \<^verbatim>\<open>database=master\<close> in the original connection
  string, \<^verbatim>\<open>SwitchDatabase("other")\<close> opens a handle on \<open>master\<close>, not on the target,
  and then records \<open>other\<close> as the current database: the target is substituted only when
  the original connection string names no database. And for a connection string that names
  a port, the host read off it already ends with the port, which is appended once more.
\<close>

theorem SwitchDatabase_keeps_url_database:
  "SwitchDatabase url_with_database_env session_with_database ''other''
     = (None,
        session_with_database\<lparr>Connection := 1, PreviousDatabase := ''app'',
                               CurrentDatabase := ''other''\<rparr>,
        [EvOpen ''sqlserver://sa:pw@localhost:1433/?database=master'', EvClose 0])
   \<and> SwitchDatabase_connection_string example_url_with_port ''other''
     = ''sqlserver://sa:pw@localhost:1444:1444/?database=other''"
  by (simp add: SwitchDatabase_def SwitchDatabase_connection_string_def Let_def
        url_with_database_env_def example_env_def example_url_def example_session_def
        session_with_database_def example_url_with_port_def defaultSqlServerPort_def)

subsection \<open>Writing one record\<close>

lemma length_Split_dotted: "CHR ''.'' \<in> set table \<Longrightarrow> length (Split table (CHR ''.'')) \<noteq> 1"
  using length_Split_ge2 [of table "CHR ''.''"] by simp

text \<open>
  After a context switch, a failed execution makes \<^verbatim>\<open>UpdateRecord\<close> switch back, and
  what it returns is the result of that second switch, not the error of the execution.
\<close>

lemma UpdateRecord_returns_restoration_result:
  assumes "database \<noteq> []" and "column \<noteq> []" and "value \<noteq> []"
      and "primaryKeyColumnName \<noteq> []" and "primaryKeyValue \<noteq> []"
      and "CHR ''.'' \<in> set table"
      and "database \<noteq> CurrentDatabase db"
      and "SwitchDatabase env db database = (None, db1, trace1)"
      and "query = UpdateRecord_query
             (formatTableName (Split table (CHR ''.'') ! 0) (Split table (CHR ''.'') ! 1))
             column primaryKeyColumnName"
      and "conn_Exec env (Connection db1) query [value, primaryKeyValue] = Some e"
      and "SwitchDatabase env db1 (PreviousDatabase db1) = (err2, db2, trace2)"
  shows "UpdateRecord env db database table column value primaryKeyColumnName primaryKeyValue
           = (err2, db2,
              trace1 @ [EvExec (Connection db1) query [value, primaryKeyValue]] @ trace2)"
proof -
  from assms(6) have t: "table \<noteq> []" by auto
  note l = length_Split_dotted [OF assms(6)]
  show ?thesis
    unfolding UpdateRecord_def
    using assms(1-5,7,8,10,11) t l
    by (simp add: Let_def assms(9))
qed

lemma DeleteRecord_returns_restoration_result:
  assumes "database \<noteq> []"
      and "primaryKeyColumnName \<noteq> []" and "primaryKeyValue \<noteq> []"
      and "CHR ''.'' \<in> set table"
      and "database \<noteq> CurrentDatabase db"
      and "SwitchDatabase env db database = (None, db1, trace1)"
      and "query = DeleteRecord_query
             (formatTableName (Split table (CHR ''.'') ! 0) (Split table (CHR ''.'') ! 1))
             primaryKeyColumnName"
      and "conn_Exec env (Connection db1) query [primaryKeyValue] = Some e"
      and "SwitchDatabase env db1 (PreviousDatabase db1) = (err2, db2, trace2)"
  shows "DeleteRecord env db database table primaryKeyColumnName primaryKeyValue
           = (err2, db2, trace1 @ [EvExec (Connection db1) query [primaryKeyValue]] @ trace2)"
proof -
  from assms(4) have t: "table \<noteq> []" by auto
  note l = length_Split_dotted [OF assms(4)]
  show ?thesis
    unfolding DeleteRecord_def
    using assms(1-3,5,6,8,9) t l
    by (simp add: Let_def assms(7))
qed

lemma example_switch_other:
  "SwitchDatabase exec_fails_env example_session ''other''
     = (None,
        example_session\<lparr>Connection := 1, PreviousDatabase := ''app'',
                         CurrentDatabase := ''other''\<rparr>,
        [EvOpen ''sqlserver://sa:pw@localhost:1433/?database=other'', EvClose 0])"
  by (simp add: SwitchDatabase_def SwitchDatabase_connection_string_def Let_def
        exec_fails_env_def example_env_def example_url_def example_session_def
        defaultSqlServerPort_def)

lemma example_switch_back:
  "SwitchDatabase exec_fails_env
     (example_session\<lparr>Connection := 1, PreviousDatabase := ''app'',
                       CurrentDatabase := ''other''\<rparr>) ''app''
     = (None,
        example_session\<lparr>Connection := 1, PreviousDatabase := ''other'',
                         CurrentDatabase := ''app''\<rparr>,
        [EvOpen ''sqlserver://sa:pw@localhost:1433/?database=app'', EvClose 1])"
  by (simp add: SwitchDatabase_def SwitchDatabase_connection_string_def Let_def
        exec_fails_env_def example_env_def example_url_def example_session_def
        defaultSqlServerPort_def)

lemma Split_dbo_t: "Split ''dbo.t'' (CHR ''.'') = [''dbo'', ''t'']"
  by simp

text \<open>
  Claim C1 fails on the code. The session is on \<open>app\<close>; an update and a delete on \<open>other\<close>
  switch the context, the server refuses the statement, the driver switches back, and both
  calls return no error: the error of the execution is overwritten by the result of the
  restoring \<^verbatim>\<open>SwitchDatabase\<close>.
\<close>

theorem failed_execution_reported_as_success:
  "conn_Exec exec_fails_env 1 ''UPDATE [dbo].[t] SET [name] = ? WHERE [id] = ?'' [''x'', ''1'']
     = Some (Error ''constraint violation'')
   \<and> UpdateRecord exec_fails_env example_session ''other'' ''dbo.t'' ''name'' ''x'' ''id'' ''1''
     = (None,
        example_session\<lparr>Connection := 1, PreviousDatabase := ''other'',
                         CurrentDatabase := ''app''\<rparr>,
        [EvOpen ''sqlserver://sa:pw@localhost:1433/?database=other'', EvClose 0,
         EvExec 1 ''UPDATE [dbo].[t] SET [name] = ? WHERE [id] = ?'' [''x'', ''1''],
         EvOpen ''sqlserver://sa:pw@localhost:1433/?database=app'', EvClose 1])
   \<and> conn_Exec exec_fails_env 1 ''DELETE FROM [dbo].[t] WHERE [id] = ?'' [''1'']
     = Some (Error ''constraint violation'')
   \<and> DeleteRecord exec_fails_env example_session ''other'' ''dbo.t'' ''id'' ''1''
     = (None,
        example_session\<lparr>Connection := 1, PreviousDatabase := ''other'',
                         CurrentDatabase := ''app''\<rparr>,
        [EvOpen ''sqlserver://sa:pw@localhost:1433/?database=other'', EvClose 0,
         EvExec 1 ''DELETE FROM [dbo].[t] WHERE [id] = ?'' [''1''],
         EvOpen ''sqlserver://sa:pw@localhost:1433/?database=app'', EvClose 1])"
proof -
  have e: "\<And>query args. conn_Exec exec_fails_env 1 query args
             = Some (Error ''constraint violation'')"
    by (simp add: exec_fails_env_def)
  have c: "''other'' \<noteq> CurrentDatabase example_session"
    by (simp add: example_session_def)
  have u: "UpdateRecord exec_fails_env example_session ''other'' ''dbo.t'' ''name'' ''x'' ''id'' ''1''
     = (None,
        example_session\<lparr>Connection := 1, PreviousDatabase := ''other'',
                         CurrentDatabase := ''app''\<rparr>,
        [EvOpen ''sqlserver://sa:pw@localhost:1433/?database=other'', EvClose 0,
         EvExec 1 ''UPDATE [dbo].[t] SET [name] = ? WHERE [id] = ?'' [''x'', ''1''],
         EvOpen ''sqlserver://sa:pw@localhost:1433/?database=app'', EvClose 1])"
    using UpdateRecord_returns_restoration_result
      [of "''other''" "''name''" "''x''" "''id''" "''1''" "''dbo.t''" example_session
          exec_fails_env _ _ "''UPDATE [dbo].[t] SET [name] = ? WHERE [id] = ?''",
       OF _ _ _ _ _ _ c example_switch_other _ _ _]
      example_switch_back e
    by (simp add: Split_dbo_t formatTableName_def UpdateRecord_query_def)
  have d: "DeleteRecord exec_fails_env example_session ''other'' ''dbo.t'' ''id'' ''1''
     = (None,
        example_session\<lparr>Connection := 1, PreviousDatabase := ''other'',
                         CurrentDatabase := ''app''\<rparr>,
        [EvOpen ''sqlserver://sa:pw@localhost:1433/?database=other'', EvClose 0,
         EvExec 1 ''DELETE FROM [dbo].[t] WHERE [id] = ?'' [''1''],
         EvOpen ''sqlserver://sa:pw@localhost:1433/?database=app'', EvClose 1])"
    using DeleteRecord_returns_restoration_result
      [of "''other''" "''id''" "''1''" "''dbo.t''" example_session
          exec_fails_env _ _ "''DELETE FROM [dbo].[t] WHERE [id] = ?''",
       OF _ _ _ _ c example_switch_other _ _ _]
      example_switch_back e
    by (simp add: Split_dbo_t formatTableName_def DeleteRecord_query_def)
  from e u d show ?thesis by simp
qed

subsection \<open>The statement of \<^verbatim>\<open>GetRecords\<close>\<close>

text \<open>A limit of 0 is replaced by the default limit.\<close>

lemma GetRecords_query_default_limit:
  "\<exists>before. GetRecords_query DefaultRowLimit formattedTableName whereClause sortClause offset 0
     = before @ '' OFFSET '' @ fmt_d offset @ '' ROWS FETCH NEXT '' @ fmt_d DefaultRowLimit
       @ '' ROWS ONLY''"
  by (simp add: GetRecords_query_def Let_def)

text \<open>
  Without a sort clause, the no-op ORDER BY is there when the offset or the limit the caller
  gave is positive.
\<close>

lemma GetRecords_query_order_by_injected:
  assumes "sortClause = []" and "offset > 0 \<or> limit > 0"
  shows "GetRecords_query DefaultRowLimit formattedTableName whereClause sortClause offset limit
     = ''SELECT * FROM '' @ formattedTableName
       @ (if whereClause \<noteq> [] then '' '' @ whereClause else [])
       @ '' ORDER BY (SELECT NULL)''
       @ '' OFFSET '' @ fmt_d offset @ '' ROWS FETCH NEXT ''
       @ fmt_d (if limit = 0 then DefaultRowLimit else limit) @ '' ROWS ONLY''"
  using assms by (auto simp: GetRecords_query_def Let_def)

text \<open>
  Without a sort clause, and with neither offset nor limit positive, the pagination clause
  follows the table (or the filter) directly.
\<close>

lemma GetRecords_query_order_by_missing:
  assumes "sortClause = []" and "offset \<le> 0" and "limit \<le> 0"
  shows "GetRecords_query DefaultRowLimit formattedTableName whereClause sortClause offset limit
     = ''SELECT * FROM '' @ formattedTableName
       @ (if whereClause \<noteq> [] then '' '' @ whereClause else [])
       @ '' OFFSET '' @ fmt_d offset @ '' ROWS FETCH NEXT ''
       @ fmt_d (if limit = 0 then DefaultRowLimit else limit) @ '' ROWS ONLY''"
  using assms by (auto simp: GetRecords_query_def Let_def)

lemma fmt_d_0: "fmt_d 0 = ''0''"
  by code_simp

lemma fmt_d_300: "fmt_d 300 = ''300''"
  by code_simp

text \<open>
  Claim C8 fails on the code at the default page: with offset 0, limit 0 and no sort clause
  the default limit 300 is applied, and the statement carries the OFFSET/FETCH clause with no
  ORDER BY before it. \<^verbatim>\<open>isPaginationEnabled\<close> is computed from the limit before the
  default replaces it, and the pagination clause is appended whatever its value.
\<close>

theorem GetRecords_default_page_has_no_order_by:
  "GetRecords 300 example_env example_session ''app'' ''dbo.t'' [] [] 0 0
     = (([[''name''], [''NULL&''], [''EMPTY&'']], 2, None), example_session,
        [EvQuery 0 ''SELECT * FROM [dbo].[t] OFFSET 0 ROWS FETCH NEXT 300 ROWS ONLY'' [],
         EvQueryRow 0 ''SELECT COUNT(*) FROM [dbo].[t]''])"
  by (simp add: GetRecords_def GetRecords_query_def switch_if_needed_def Let_def
        example_env_def example_session_def example_rows_def formatTableName_def
        NullString_cell_def fmt_d_0 fmt_d_300)

subsection \<open>The catalog queries\<close>

lemma markers_GetTables_query: "parameter_markers GetTables_query = 0"
  by (simp add: parameter_markers_def GetTables_query_def)

lemma markers_GetTableColumns_query: "parameter_markers GetTableColumns_query = 2"
  by (simp add: parameter_markers_def GetTableColumns_query_def)

lemma markers_GetIndexes_format: "parameter_markers GetIndexes_format = 2"
  by code_simp

lemma markers_GetConstraints_query: "parameter_markers GetConstraints_query = 2"
  by code_simp

lemma markers_GetForeignKeys_query: "parameter_markers GetForeignKeys_query = 2"
  by code_simp

lemma markers_GetPrimaryKeyColumnNames_query:
  "parameter_markers GetPrimaryKeyColumnNames_query = 2"
  by code_simp

text \<open>
  The four other readers pass the schema and the table to \<^verbatim>\<open>Query\<close>, for the two
  markers of their texts.
\<close>

lemma catalog_readers_bind_schema_and_table:
  assumes "database \<noteq> []" and "CHR ''.'' \<in> set table" and "database = CurrentDatabase db"
      and "args = [Split table (CHR ''.'') ! 0, Split table (CHR ''.'') ! 1]"
  shows "snd (snd (GetTableColumns env db database table))
           = [EvQuery (Connection db) GetTableColumns_query args]"
    and "snd (snd (GetConstraints env db database table))
           = [EvQuery (Connection db) GetConstraints_query args]"
    and "snd (snd (GetForeignKeys env db database table))
           = [EvQuery (Connection db) GetForeignKeys_query args]"
    and "snd (snd (GetPrimaryKeyColumnNames env db database table))
           = [EvQuery (Connection db) GetPrimaryKeyColumnNames_query args]"
proof -
  from assms(2) have t: "table \<noteq> []" by auto
  note l = length_Split_dotted [OF assms(2)]
  show "snd (snd (GetTableColumns env db database table))
           = [EvQuery (Connection db) GetTableColumns_query args]"
    using assms(1,3,4) t l
    by (simp add: GetTableColumns_def switch_if_needed_def catalog_query_def Let_def
          split: sum.splits)
  show "snd (snd (GetConstraints env db database table))
           = [EvQuery (Connection db) GetConstraints_query args]"
    using assms(1,3,4) t l
    by (simp add: GetConstraints_def switch_if_needed_def catalog_query_def Let_def
          split: sum.splits)
  show "snd (snd (GetForeignKeys env db database table))
           = [EvQuery (Connection db) GetForeignKeys_query args]"
    using assms(1,3,4) t l
    by (simp add: GetForeignKeys_def switch_if_needed_def catalog_query_def Let_def
          split: sum.splits)
  show "snd (snd (GetPrimaryKeyColumnNames env db database table))
           = [EvQuery (Connection db) GetPrimaryKeyColumnNames_query args]"
    using assms(1,3,4) t l
    by (simp add: GetPrimaryKeyColumnNames_def switch_if_needed_def Let_def
          split: sum.splits option.splits)
qed

lemma Split_dbo_users: "Split ''dbo.users'' (CHR ''.'') = [''dbo'', ''users'']"
  by simp

text \<open>
  Claim C10 fails on the code for two of the six catalog queries. \<^verbatim>\<open>GetIndexes\<close>
  formats the schema and the table into the text, where no verb takes them, and sends the
  statement with two markers and no bind argument; \<^verbatim>\<open>GetTables\<close> sends a text without
  a marker together with the database name as a bind argument.
\<close>

theorem GetIndexes_and_GetTables_arguments_do_not_match_markers:
  "snd (snd (GetIndexes example_env example_session ''app'' ''dbo.users''))
     = [EvQuery 0 (GetIndexes_format @ ''%!(EXTRA string=dbo, string=users)'') []]
   \<and> parameter_markers GetIndexes_format = 2
   \<and> snd (snd (GetTables example_env example_session ''app''))
     = [EvQuery 0 GetTables_query [''app'']]
   \<and> parameter_markers GetTables_query = 0"
proof -
  have i: "snd (snd (GetIndexes example_env example_session ''app'' ''dbo.users''))
     = [EvQuery 0 (GetIndexes_format @ ''%!(EXTRA string=dbo, string=users)'') []]"
    by (simp add: GetIndexes_def switch_if_needed_def catalog_query_def Let_def
          Sprintf_no_verbs_def example_env_def example_session_def Split_dbo_users)
  have t: "snd (snd (GetTables example_env example_session ''app''))
     = [EvQuery 0 GetTables_query [''app'']]"
    by (simp add: GetTables_def switch_if_needed_def Let_def example_env_def
          example_session_def example_rows_def Scan_strings_def
          split: sum.splits option.splits)
  from i t markers_GetIndexes_format markers_GetTables_query show ?thesis by simp
qed

subsection \<open>Table identifiers\<close>

lemma length_Split_undotted:
  "CHR ''.'' \<notin> set table \<Longrightarrow> length (Split table (CHR ''.'')) = 1"
proof -
  assume "CHR ''.'' \<notin> set table"
  then have "filter (\<lambda>c. c = CHR ''.'') table = []"
    by (induction table) auto
  then show ?thesis by (simp add: length_Split)
qed

text \<open>
  \<^verbatim>\<open>ExecutePendingChanges\<close> has no check of the table: without a dot, reading
  \<^verbatim>\<open>splitTableString[1]\<close> panics.
\<close>

lemma change_query_undotted_panics:
  "CHR ''.'' \<notin> set (change_Table change) \<Longrightarrow> change_query change = Inl (IndexOutOfRange 1 1)"
  by (simp add: change_query_def Let_def length_Split_undotted)

text \<open>
  Claim C5, as amended. For a table string without a dot (the empty string too), the five
  catalog readers that take a table, \<^verbatim>\<open>GetRecords\<close>, \<^verbatim>\<open>UpdateRecord\<close> and
  \<^verbatim>\<open>DeleteRecord\<close> return a validation error, leave the session as it was, and open no
  handle and send no statement.
\<close>

theorem undotted_table_fails_before_any_query:
  assumes "CHR ''.'' \<notin> set table"
  shows "(\<exists>err. is_validation_error err
            \<and> GetTableColumns env db database table = (([], Some err), db, []))
       \<and> (\<exists>err. is_validation_error err
            \<and> GetConstraints env db database table = (([], Some err), db, []))
       \<and> (\<exists>err. is_validation_error err
            \<and> GetForeignKeys env db database table = (([], Some err), db, []))
       \<and> (\<exists>err. is_validation_error err
            \<and> GetIndexes env db database table = (([], Some err), db, []))
       \<and> (\<exists>err. is_validation_error err
            \<and> GetPrimaryKeyColumnNames env db database table = (Inl err, db, []))
       \<and> (\<exists>err. is_validation_error err
            \<and> GetRecords DefaultRowLimit env db database table whereClause sortClause
                 offset limit = (([], 0, Some err), db, []))
       \<and> (\<exists>err. is_validation_error err
            \<and> UpdateRecord env db database table column value primaryKeyColumnName
                 primaryKeyValue = (Some err, db, []))
       \<and> (\<exists>err. is_validation_error err
            \<and> DeleteRecord env db database table primaryKeyColumnName primaryKeyValue
                 = (Some err, db, []))"
proof -
  note l = length_Split_undotted [OF assms]
  have 1: "\<exists>err. is_validation_error err
            \<and> GetTableColumns env db database table = (([], Some err), db, [])"
    using l by (simp add: GetTableColumns_def is_validation_error_def)
  have 2: "\<exists>err. is_validation_error err
            \<and> GetConstraints env db database table = (([], Some err), db, [])"
    using l by (simp add: GetConstraints_def is_validation_error_def)
  have 3: "\<exists>err. is_validation_error err
            \<and> GetForeignKeys env db database table = (([], Some err), db, [])"
    using l by (simp add: GetForeignKeys_def is_validation_error_def)
  have 4: "\<exists>err. is_validation_error err
            \<and> GetIndexes env db database table = (([], Some err), db, [])"
    using l by (simp add: GetIndexes_def is_validation_error_def)
  have 5: "\<exists>err. is_validation_error err
            \<and> GetPrimaryKeyColumnNames env db database table = (Inl err, db, [])"
    using l by (simp add: GetPrimaryKeyColumnNames_def is_validation_error_def)
  have 6: "\<exists>err. is_validation_error err
            \<and> GetRecords DefaultRowLimit env db database table whereClause sortClause
                 offset limit = (([], 0, Some err), db, [])"
    using l by (simp add: GetRecords_def is_validation_error_def)
  have 7: "\<exists>err. is_validation_error err
            \<and> UpdateRecord env db database table column value primaryKeyColumnName
                 primaryKeyValue = (Some err, db, [])"
    using l by (simp add: UpdateRecord_def is_validation_error_def)
  have 8: "\<exists>err. is_validation_error err
            \<and> DeleteRecord env db database table primaryKeyColumnName primaryKeyValue
                 = (Some err, db, [])"
    using l by (simp add: DeleteRecord_def is_validation_error_def)
  from 1 2 3 4 5 6 7 8 show ?thesis by blast
qed

theorem undotted_table_fails_before_any_query_witness:
  "CHR ''.'' \<notin> set ''users''
   \<and> GetTableColumns example_env example_session ''other'' ''users''
       = (([], Some (Error ''table must be in the format schema.table'')), example_session, [])
   \<and> UpdateRecord example_env example_session ''other'' ''users'' ''name'' ''x'' ''id'' ''1''
       = (Some (Error ''table must be in the format schema.table''), example_session, [])"
proof -
  have h: "CHR ''.'' \<notin> set ''users''" by simp
  from undotted_table_fails_before_any_query
         [where env = example_env and db = example_session and database = "''other''",
          OF h, THEN conjunct1]
  obtain err where "GetTableColumns example_env example_session ''other'' ''users''
          = (([], Some err), example_session, [])"
    by blast
  then have "snd (GetTableColumns example_env example_session ''other'' ''users'')
          = (example_session, [])"
    by simp
  moreover have "fst (GetTableColumns example_env example_session ''other'' ''users'')
          = ([], Some (Error ''table must be in the format schema.table''))"
    by (simp add: GetTableColumns_def)
  ultimately have g: "GetTableColumns example_env example_session ''other'' ''users''
       = (([], Some (Error ''table must be in the format schema.table'')), example_session, [])"
    by (simp add: prod_eq_iff)
  have u: "UpdateRecord example_env example_session ''other'' ''users'' ''name'' ''x'' ''id'' ''1''
       = (Some (Error ''table must be in the format schema.table''), example_session, [])"
    by (simp add: UpdateRecord_def)
  from h g u show ?thesis by blast
qed

text \<open>
  The claim as written fails: a table string of three parts and one with an empty schema
  pass the check of the format, and the catalog query is sent with the first two parts.
\<close>

theorem malformed_dotted_table_reaches_the_server:
  "Split ''a.b.c'' (CHR ''.'') = [''a'', ''b'', ''c'']
   \<and> snd (snd (GetTableColumns example_env example_session ''app'' ''a.b.c''))
       = [EvQuery 0 GetTableColumns_query [''a'', ''b'']]
   \<and> Split ''.t'' (CHR ''.'') = [[], ''t'']
   \<and> snd (snd (GetTableColumns example_env example_session ''app'' ''.t''))
       = [EvQuery 0 GetTableColumns_query [[], ''t'']]"
  by (simp add: GetTableColumns_def switch_if_needed_def catalog_query_def Let_def
        example_env_def example_session_def)

subsection \<open>Cells of a result\<close>

lemma rows_loop_Inr:
  "rows_loop cell scans results = Inr results' \<Longrightarrow>
   \<exists>cells. scans = map Inr cells \<and> results' = results @ map (map cell) cells"
proof (induction scans arbitrary: results)
  case Nil
  then show ?case by simp
next
  case (Cons scan scans)
  then obtain rowValues where s: "scan = Inr rowValues"
    by (cases scan) simp_all
  with Cons.prems have "rows_loop cell scans (results @ [map cell rowValues]) = Inr results'"
    by simp
  from Cons.IH [OF this] obtain cells where
    "scans = map Inr cells" "results' = (results @ [map cell rowValues]) @ map (map cell) cells"
    by blast
  with s have "scan # scans = map Inr (rowValues # cells)
      \<and> results' = results @ map (map cell) (rowValues # cells)"
    by simp
  then show ?case by (rule exI [where x = "rowValues # cells"])
qed

lemma GetRecords_records:
  assumes "GetRecords DefaultRowLimit env db database table whereClause sortClause offset limit
             = ((records, totalRecords, None), db', trace)"
  shows "\<exists>c query paginatedRows columns.
           conn_Query env c query [] = Inr paginatedRows
           \<and> rows_Columns paginatedRows = Inr columns
           \<and> rows_loop NullString_cell (rows_Scans paginatedRows) [columns] = Inr records"
  using assms
  unfolding GetRecords_def Let_def
  by (simp split: if_splits prod.splits option.splits sum.splits) blast

text \<open>
  Claim C9, as amended. In the result that \<^verbatim>\<open>GetRecords\<close> returns without an error, the
  first row is the column names and every other row is a row of the server, cell by cell,
  with a NULL written as \<^verbatim>\<open>NULL&\<close> and an empty string as \<^verbatim>\<open>EMPTY&\<close>: two different
  strings.
\<close>

theorem GetRecords_marks_null_and_empty:
  assumes "GetRecords DefaultRowLimit env db database table whereClause sortClause offset limit
             = ((records, totalRecords, None), db', trace)"
  shows "\<exists>c query paginatedRows columns cells.
           conn_Query env c query [] = Inr paginatedRows
           \<and> rows_Columns paginatedRows = Inr columns
           \<and> rows_Scans paginatedRows = map Inr cells
           \<and> records = columns # map (map (\<lambda>col. case col of
                                               None \<Rightarrow> ''NULL&''
                                             | Some s \<Rightarrow> if s = [] then ''EMPTY&'' else s)) cells
           \<and> ''NULL&'' \<noteq> ''EMPTY&''"
proof -
  from GetRecords_records [OF assms] obtain c query paginatedRows columns where
    q: "conn_Query env c query [] = Inr paginatedRows"
    and cs: "rows_Columns paginatedRows = Inr columns"
    and l: "rows_loop NullString_cell (rows_Scans paginatedRows) [columns] = Inr records"
    by blast
  from rows_loop_Inr [OF l] obtain cells where
    s: "rows_Scans paginatedRows = map Inr cells"
    and r: "records = [columns] @ map (map NullString_cell) cells"
    by blast
  have n: "NullString_cell = (\<lambda>col. case col of
                                None \<Rightarrow> ''NULL&''
                              | Some s \<Rightarrow> if s = [] then ''EMPTY&'' else s)"
    by (rule ext) (simp add: NullString_cell_def split: option.splits)
  from r have "records = columns # map (map (\<lambda>col. case col of
                                               None \<Rightarrow> ''NULL&''
                                             | Some s \<Rightarrow> if s = [] then ''EMPTY&'' else s)) cells"
    by (simp add: n)
  with q cs s show ?thesis by blast
qed

lemma example_GetRecords:
  "GetRecords 300 example_env example_session ''app'' ''dbo.t'' [] [] 0 10
     = (([[''name''], [''NULL&''], [''EMPTY&'']], 2, None), example_session,
        [EvQuery 0
           ''SELECT * FROM [dbo].[t] ORDER BY (SELECT NULL) OFFSET 0 ROWS FETCH NEXT 10 ROWS ONLY''
           [],
         EvQueryRow 0 ''SELECT COUNT(*) FROM [dbo].[t]''])"
proof -
  have "fmt_d 10 = ''10''" by code_simp
  then show ?thesis
    by (simp add: GetRecords_def GetRecords_query_def switch_if_needed_def Let_def
          example_env_def example_session_def example_rows_def formatTableName_def
          NullString_cell_def fmt_d_0)
qed

theorem GetRecords_marks_null_and_empty_witness:
  "GetRecords 300 example_env example_session ''app'' ''dbo.t'' [] [] 0 10
     = (([[''name''], [''NULL&''], [''EMPTY&'']], 2, None), example_session,
        [EvQuery 0
           ''SELECT * FROM [dbo].[t] ORDER BY (SELECT NULL) OFFSET 0 ROWS FETCH NEXT 10 ROWS ONLY''
           [],
         EvQueryRow 0 ''SELECT COUNT(*) FROM [dbo].[t]''])
   \<and> (\<exists>cells. rows_Scans example_rows = map Inr cells
         \<and> [[''name''], [''NULL&''], [''EMPTY&'']]
           = [''name''] # map (map (\<lambda>col. case col of
                                          None \<Rightarrow> ''NULL&''
                                        | Some s \<Rightarrow> if s = [] then ''EMPTY&'' else s)) cells)"
proof -
  from GetRecords_marks_null_and_empty [OF example_GetRecords]
  have "\<exists>cells. rows_Scans example_rows = map Inr cells
         \<and> [[''name''], [''NULL&''], [''EMPTY&'']]
           = [''name''] # map (map (\<lambda>col. case col of
                                          None \<Rightarrow> ''NULL&''
                                        | Some s \<Rightarrow> if s = [] then ''EMPTY&'' else s)) cells"
    by (auto simp: example_env_def example_rows_def)
  with example_GetRecords show ?thesis by blast
qed

text \<open>
  The claim as written fails for \<^verbatim>\<open>ExecuteQuery\<close>, which scans into raw bytes: the row
  with a NULL and the row with an empty string come back as the same empty string.
\<close>

theorem ExecuteQuery_null_and_empty_coincide:
  "ExecuteQuery example_env example_session ''SELECT name FROM dbo.t''
     = (([[''name''], [[]], [[]]], None), example_session,
        [EvQuery 0 ''SELECT name FROM dbo.t'' []])"
  by (simp add: ExecuteQuery_def Let_def example_env_def example_session_def example_rows_def
        RawBytes_string_def)

subsection \<open>The transaction\<close>

lemma statements_loop_Inl:
  "statements_loop exec s queries = Inl err \<Longrightarrow>
   \<exists>applied query rest s'.
     queries = applied @ query # rest
     \<and> statements_loop exec s applied = Inr s' \<and> exec s' query = Inl err"
proof (induction queries arbitrary: s)
  case Nil
  then show ?case by simp
next
  case (Cons q queries)
  show ?case
  proof (cases "exec s q")
    case (Inl e)
    with Cons.prems have "err = e" by simp
    with Inl have "q # queries = [] @ q # queries
        \<and> statements_loop exec s [] = Inr s \<and> exec s q = Inl err"
      by simp
    then show ?thesis by blast
  next
    case (Inr s1)
    with Cons.prems have "statements_loop exec s1 queries = Inl err" by simp
    from Cons.IH [OF this] obtain applied query rest s' where
      "queries = applied @ query # rest"
      "statements_loop exec s1 applied = Inr s'" "exec s' query = Inl err"
      by blast
    with Inr have "q # queries = (q # applied) @ query # rest
        \<and> statements_loop exec s (q # applied) = Inr s' \<and> exec s' query = Inl err"
      by simp
    then show ?thesis by blast
  qed
qed

text \<open>
  Claim C2. A batch whose statements are built runs in one transaction: either every
  statement succeeds, in order, and the contents of the database are those after the last
  one; or the call returns the error of the first statement that fails, after the statements
  before it had succeeded, and the contents of the database are those from before the batch.
\<close>

theorem pending_changes_apply_atomically:
  assumes "ExecutePendingChanges (queriesInTransaction exec s) changes = Inr (result, s')"
  shows "\<exists>queries. changes_loop changes [] = Inr queries
           \<and> (case result of
                 None \<Rightarrow> statements_loop exec s queries = Inr s'
               | Some err \<Rightarrow>
                   s' = s
                   \<and> (\<exists>applied query rest s1.
                         queries = applied @ query # rest
                         \<and> statements_loop exec s applied = Inr s1
                         \<and> exec s1 query = Inl err))"
proof -
  from assms obtain queries where
    qs: "changes_loop changes [] = Inr queries"
    and r: "queriesInTransaction exec s queries = (result, s')"
    by (auto simp: ExecutePendingChanges_def split: sum.splits)
  show ?thesis
  proof (cases "statements_loop exec s queries")
    case (Inl err)
    with r have "result = Some err" "s' = s"
      by (simp_all add: queriesInTransaction_def)
    with statements_loop_Inl [OF Inl] qs show ?thesis by auto
  next
    case (Inr s2)
    with r have "result = None" "s' = s2"
      by (simp_all add: queriesInTransaction_def)
    with Inr qs show ?thesis by simp
  qed
qed

lemma example_batch_result:
  "ExecutePendingChanges (queriesInTransaction example_exec [])
     [example_delete_all, example_failing_insert, example_update]
   = Inr (Some (Error ''constraint violation''), [])"
  by code_simp

theorem pending_changes_apply_atomically_witness:
  "ExecutePendingChanges (queriesInTransaction example_exec [])
     [example_delete_all, example_failing_insert, example_update]
   = Inr (Some (Error ''constraint violation''), [])
   \<and> (\<exists>queries applied query rest s1.
         changes_loop [example_delete_all, example_failing_insert, example_update] []
           = Inr queries
         \<and> queries = applied @ query # rest
         \<and> statements_loop example_exec [] applied = Inr s1
         \<and> example_exec s1 query = Inl (Error ''constraint violation''))"
proof -
  from pending_changes_apply_atomically [OF example_batch_result]
  have "\<exists>queries applied query rest s1.
         changes_loop [example_delete_all, example_failing_insert, example_update] []
           = Inr queries
         \<and> queries = applied @ query # rest
         \<and> statements_loop example_exec [] applied = Inr s1
         \<and> example_exec s1 query = Inl (Error ''constraint violation'')"
    by auto
  with example_batch_result show ?thesis by blast
qed

end
